theory Spec2Isabelle
  imports Main "HOL-Library.Word"
begin

section \<open>Values of the JavaScript runtime\<close>

text \<open>
  A number as the version checks meet it: an integer, \<^verbatim>\<open>NaN\<close> (what
  \<^verbatim>\<open>Number\<close> makes of text that is no number), or \<^verbatim>\<open>undefined\<close> (an array
  read past its end). The relational operators are false as soon as one side is not a
  number; \<^verbatim>\<open>===\<close> holds between two \<^verbatim>\<open>undefined\<close> and never for \<^verbatim>\<open>NaN\<close>.
\<close>

datatype jsnum = Num int | NaN | Undefined

fun js_gt :: "jsnum \<Rightarrow> jsnum \<Rightarrow> bool" where
  "js_gt (Num a) (Num b) = (a > b)"
| "js_gt x y = False"

fun js_ge :: "jsnum \<Rightarrow> jsnum \<Rightarrow> bool" where
  "js_ge (Num a) (Num b) = (a \<ge> b)"
| "js_ge x y = False"

fun js_lt :: "jsnum \<Rightarrow> jsnum \<Rightarrow> bool" where
  "js_lt (Num a) (Num b) = (a < b)"
| "js_lt x y = False"

fun js_le :: "jsnum \<Rightarrow> jsnum \<Rightarrow> bool" where
  "js_le (Num a) (Num b) = (a \<le> b)"
| "js_le x y = False"

fun js_strict_eq :: "jsnum \<Rightarrow> jsnum \<Rightarrow> bool" where
  "js_strict_eq (Num a) (Num b) = (a = b)"
| "js_strict_eq Undefined Undefined = True"
| "js_strict_eq x y = False"

definition js_nth :: "jsnum list \<Rightarrow> nat \<Rightarrow> jsnum" where
  "js_nth xs i = (if i < length xs then xs ! i else Undefined)"

text \<open>Truthiness of a string, and of a property that holds a string or is absent.\<close>

definition truthy :: "string \<Rightarrow> bool" where
  "truthy s = (s \<noteq> [])"

definition truthy_opt :: "string option \<Rightarrow> bool" where
  "truthy_opt v = (case v of Some s \<Rightarrow> truthy s | None \<Rightarrow> False)"

text \<open>\<^verbatim>\<open>a || b\<close> on two environment variables.\<close>

definition or_else :: "string option \<Rightarrow> string option \<Rightarrow> string option" where
  "or_else a b = (if truthy_opt a then a else b)"

text \<open>\<^verbatim>\<open>String.prototype.split\<close> with a one-character separator, \<^verbatim>\<open>trim\<close>,
  \<^verbatim>\<open>endsWith\<close> and \<^verbatim>\<open>Array.prototype.join\<close>.\<close>

fun split_on :: "char \<Rightarrow> string \<Rightarrow> string list" where
  "split_on c [] = [[]]"
| "split_on c (x # xs) =
     (if x = c then [] # split_on c xs
      else (case split_on c xs of w # ws \<Rightarrow> (x # w) # ws | [] \<Rightarrow> [[x]]))"

definition is_space :: "char \<Rightarrow> bool" where
  "is_space c = (c = CHR '' '' \<or> c = CHR 0x09 \<or> c = CHR 0x0A \<or> c = CHR 0x0B \<or> c = CHR 0x0C \<or> c = CHR 0x0D)"

definition trim :: "string \<Rightarrow> string" where
  "trim s = rev (dropWhile is_space (rev (dropWhile is_space s)))"

definition endsWith :: "string \<Rightarrow> string \<Rightarrow> bool" where
  "endsWith s suffix = (length suffix \<le> length s \<and> drop (length s - length suffix) s = suffix)"

fun join :: "string \<Rightarrow> string list \<Rightarrow> string" where
  "join sep [] = []"
| "join sep [x] = x"
| "join sep (x # y # rest) = x @ sep @ join sep (y # rest)"

text \<open>An integer inside a template string: its decimal digits.\<close>

definition digit_char :: "nat \<Rightarrow> char" where
  "digit_char n = ''0123456789'' ! n"

function decimal_nat :: "nat \<Rightarrow> string" where
  "decimal_nat n = (if n < 10 then [digit_char n] else decimal_nat (n div 10) @ [digit_char (n mod 10)])"
  by pat_completeness auto
termination
  by (relation "measure (\<lambda>n. n)") auto

declare decimal_nat.simps [simp del]

definition decimal :: "int \<Rightarrow> string" where
  "decimal i = (if i < 0 then CHR ''-'' # decimal_nat (nat (- i)) else decimal_nat (nat i))"

text \<open>
  \<^verbatim>\<open>digest('hex')\<close> of an MD5 hash: the 128 bits as 32 lower-case hexadecimal
  digits, most significant first.
\<close>

definition hex_char :: "nat \<Rightarrow> char" where
  "hex_char n = ''0123456789abcdef'' ! n"

definition hex_digest :: "128 word \<Rightarrow> string" where
  "hex_digest w = map (\<lambda>i. hex_char (unat (take_bit 4 (drop_bit (4 * (31 - i)) w)))) [0..<32]"

section \<open>Configuration and cache record (scripts/generate-types.js)\<close>

type_synonym path = string

text \<open>The script's \<^verbatim>\<open>config\<close> object, after the command line overrides.\<close>

record Config =
  pythonScript :: path
  outputFile :: path
  cacheFile :: path
  tempOutputFile :: path
  debugMode :: bool
  pythonExecutable :: string
  forceRegeneration :: bool
  useTS49Features :: bool
  pythonMinVersion :: string
  pythonMaxVersion :: string
  pythonPreferredVersion :: string
  pluginsEnabled :: bool

text \<open>
  The object read from and written to the cache file. A property is absent
  (\<^verbatim>\<open>undefined\<close>, or \<^verbatim>\<open>null\<close> for \<^verbatim>\<open>pythonVersion\<close>) or holds a string;
  \<^verbatim>\<open>lastGenerated\<close> is an ISO-8601 string, kept here as the instant in milliseconds
  that \<^verbatim>\<open>new Date(...)\<close> reads from it, \<open>None\<close> where the property is absent or the
  date invalid (every comparison with an invalid date is false).
\<close>

record cacheData =
  lastGenerated :: "int option"
  scriptHash :: "string option"
  outputHash :: "string option"
  stubFilesHash :: "string option"
  versionCompatHash :: "string option"
  pythonVersion :: "string option"

section \<open>The plugin host (src/utils/plugin-manager.ts)\<close>

text \<open>
  The five hook points of \<^verbatim>\<open>PluginHook\<close> (types/config.ts) and the text a template
  string prints for each.
\<close>

datatype PluginHook = PRE_GENERATION | PRE_CONVERSION | POST_CONVERSION | POST_GENERATION | ON_ERROR

fun hook_text :: "PluginHook \<Rightarrow> string" where
  "hook_text PRE_GENERATION = ''PRE_GENERATION''"
| "hook_text PRE_CONVERSION = ''PRE_CONVERSION''"
| "hook_text POST_CONVERSION = ''POST_CONVERSION''"
| "hook_text POST_GENERATION = ''POST_GENERATION''"
| "hook_text ON_ERROR = ''ON_ERROR''"

text \<open>
  \<^verbatim>\<open>PluginDefinition\<close>: \<^verbatim>\<open>priority\<close> and \<^verbatim>\<open>enabled\<close> are optional; the
  description and the options bag play no part in loading order and are left out.
  Priorities are the integers a JSON configuration file gives.
\<close>

record PluginDefinition =
  name :: string
  version :: string
  module_ref :: string
  priority :: "int option"
  enabled :: "bool option"

text \<open>
  The logger a context carries: the manager's own (\<^verbatim>\<open>this.logger\<close>) or an object a
  plugin put there.
\<close>

datatype logger = ManagerLogger | ForeignLogger string

text \<open>
  \<^verbatim>\<open>PluginContext\<close>. The properties of \<^verbatim>\<open>metadata\<close> are fields of their own:
  the two the script reads back from a hook's result (\<^verbatim>\<open>forceRegeneration\<close>,
  \<^verbatim>\<open>env\<close>), the cache record the pre-generation hook is shown, and the remaining
  string-valued entries as a list. \<^verbatim>\<open>pluginData\<close> is an ordered list of entries,
  \<^verbatim>\<open>hook_error\<close> the message of the \<^verbatim>\<open>error\<close> the error hook is given, and
  \<^verbatim>\<open>logger\<close> the field \<^verbatim>\<open>executeHook\<close> adds. An optional property is an option;
  \<open>None\<close> is \<^verbatim>\<open>undefined\<close>.
\<close>

record PluginContext =
  config :: Config
  metadata_forceRegeneration :: "bool option"
  metadata_env :: "(string \<rightharpoonup> string) option"
  metadata_cache :: "cacheData option"
  metadata_other :: "(string \<times> string option) list"
  tsOutput :: "string option"
  hook_error :: "string option"
  pluginData :: "(string \<times> string) list"
  logger :: "logger option"

text \<open>
  One call \<^verbatim>\<open>await Promise.resolve(plugin.onHook(hook, currentContext))\<close>. The handler
  is handed the working context object itself, so it can write to it before it yields
  a context (that object or another), yields nothing (\<^verbatim>\<open>undefined\<close>, or any other
  value that fails \<^verbatim>\<open>if (result)\<close>), or throws (a rejected promise is a throw under
  \<^verbatim>\<open>await\<close>) with the message of the error. A plugin is taken at this interface:
  for a hook and the state of the working context it is handed, the state it leaves
  that object in, and what the call yields. Its optional \<^verbatim>\<open>cleanup\<close> is absent,
  returns, or throws a message. The working context is a shallow copy of the caller's:
  what a handler writes through it into the script's own \<^verbatim>\<open>config\<close> object is not
  followed.
\<close>

datatype hook_result = Returns "PluginContext option" | Throws string

record Plugin =
  onHook :: "PluginHook \<Rightarrow> PluginContext \<Rightarrow> PluginContext \<times> hook_result"
  plugin_cleanup :: "string option option"

text \<open>
  A JavaScript \<^verbatim>\<open>Map\<close> keeps its keys in the order of their first insertion;
  \<^verbatim>\<open>set\<close> on a key already present replaces the value where the key stands.
\<close>

fun map_set :: "'k \<Rightarrow> 'v \<Rightarrow> ('k \<times> 'v) list \<Rightarrow> ('k \<times> 'v) list" where
  "map_set k v [] = [(k, v)]"
| "map_set k v ((k', v') # m) = (if k' = k then (k, v) # m else (k', v') # map_set k v m)"

record PluginManager =
  pluginDefs :: "PluginDefinition list"
  plugins :: "(string \<times> Plugin) list"
  pluginConfigs :: "(string \<times> PluginDefinition) list"
  initialized :: bool

definition new_PluginManager :: "PluginDefinition list \<Rightarrow> PluginManager" where
  "new_PluginManager defs = \<lparr>pluginDefs = defs, plugins = [], pluginConfigs = [], initialized = False\<rparr>"

text \<open>
  What a run does that can be observed from outside. Of the plugin host: a handler being
  called (with the plugin's name and the context handed to it) and a line written by
  the manager's logger. Of the script: a child process started (\<^verbatim>\<open>spawn\<close>,
  \<^verbatim>\<open>spawnSync\<close>) with its executable and arguments, a call of
  \<^verbatim>\<open>fs.writeFileSync\<close> that went through with its path and content, and a line on
  the console.
\<close>

datatype event =
    Invoked string PluginHook PluginContext
  | LogInfo string
  | LogError string
  | Spawned string "string list"
  | WroteFile path string
  | ConsoleError string
  | ConsoleWarn string

text \<open>Events that precede those of the rest of a computation.\<close>

definition with_events :: "event list \<Rightarrow> 'a \<times> event list \<Rightarrow> 'a \<times> event list" where
  "with_events ev r = (fst r, ev @ snd r)"

text \<open>
  \<^verbatim>\<open>loadPlugin\<close>: resolving the module, \<^verbatim>\<open>require\<close>, instantiating and
  \<^verbatim>\<open>plugin.initialize(pluginDef)\<close> are the module system's work, given here as
  \<open>req\<close>, which yields the plugin or the message of whatever was thrown on the way;
  \<^verbatim>\<open>loadPlugin\<close> rethrows with its own prefix.
\<close>

type_synonym loader = "PluginDefinition \<Rightarrow> string + Plugin"

definition loadPlugin :: "loader \<Rightarrow> PluginDefinition \<Rightarrow> string + Plugin" where
  "loadPlugin req pluginDef =
     (case req pluginDef of
        Inr plugin \<Rightarrow> Inr plugin
      | Inl msg \<Rightarrow> Inl (''Failed to load plugin '' @ name pluginDef @ '': '' @ msg))"

definition priority_or_default :: "PluginDefinition \<Rightarrow> int" where
  "priority_or_default d = (case priority d of Some p \<Rightarrow> p | None \<Rightarrow> 100)"

text \<open>The loop of \<^verbatim>\<open>initialize\<close> over the sorted definitions.\<close>

fun load_all :: "loader \<Rightarrow> PluginDefinition list \<Rightarrow> PluginManager \<Rightarrow> PluginManager \<times> event list" where
  "load_all req [] pm = (pm, [])"
| "load_all req (pluginDef # rest) pm =
     (if enabled pluginDef = Some False then
        with_events [LogInfo (''Skipping disabled plugin: '' @ name pluginDef)] (load_all req rest pm)
      else
        (case loadPlugin req pluginDef of
           Inr plugin \<Rightarrow>
             with_events [LogInfo (''Loaded plugin: '' @ name pluginDef @ '' v'' @ version pluginDef)]
               (load_all req rest
                  (pm\<lparr>plugins := map_set (name pluginDef) plugin (plugins pm),
                      pluginConfigs := map_set (name pluginDef) pluginDef (pluginConfigs pm)\<rparr>))
         | Inl msg \<Rightarrow>
             with_events [LogError (''Failed to load plugin '' @ name pluginDef @ '': '' @ msg)]
               (load_all req rest pm)))"

text \<open>
  \<^verbatim>\<open>initialize\<close>: a stable sort by \<^verbatim>\<open>(a.priority ?? 100) - (b.priority ?? 100)\<close>
  (\<open>sort_key\<close> is a stable insertion sort), then the loading loop.
\<close>

definition initialize :: "loader \<Rightarrow> PluginManager \<Rightarrow> PluginManager \<times> event list" where
  "initialize req pm =
     (if initialized pm then (pm, [])
      else
        (let sortedPlugins = sort_key priority_or_default (pluginDefs pm);
             loaded = load_all req sortedPlugins pm
         in ((fst loaded)\<lparr>initialized := True\<rparr>, snd loaded)))"

text \<open>
  The loop of \<^verbatim>\<open>executeHook\<close> over \<^verbatim>\<open>this.plugins.entries()\<close>. A truthy result
  becomes the working context and is given the manager's logger if it has none; after a
  falsy result or a throw the working context is the object the handler was handed, in
  the state the handler left it.
\<close>

fun run_plugins :: "PluginHook \<Rightarrow> (string \<times> Plugin) list \<Rightarrow> PluginContext \<Rightarrow> PluginContext \<times> event list" where
  "run_plugins hook [] currentContext = (currentContext, [])"
| "run_plugins hook ((nm, plugin) # rest) currentContext =
     (case snd (onHook plugin hook currentContext) of
        Returns (Some result) \<Rightarrow>
          with_events [Invoked nm hook currentContext]
            (run_plugins hook rest
               (if logger result = None then result\<lparr>logger := Some ManagerLogger\<rparr> else result))
      | Returns None \<Rightarrow>
          with_events [Invoked nm hook currentContext]
            (run_plugins hook rest (fst (onHook plugin hook currentContext)))
      | Throws msg \<Rightarrow>
          with_events
            [Invoked nm hook currentContext,
             LogError (''Error executing plugin '' @ nm @ '' for hook '' @ hook_text hook @ '': '' @ msg)]
            (run_plugins hook rest (fst (onHook plugin hook currentContext))))"

definition executeHook ::
  "loader \<Rightarrow> PluginManager \<Rightarrow> PluginHook \<Rightarrow> PluginContext \<Rightarrow> PluginContext \<times> PluginManager \<times> event list" where
  "executeHook req pm hook ctx =
     (let init = (if \<not> initialized pm then initialize req pm else (pm, []));
          currentContext = ctx\<lparr>logger := Some ManagerLogger\<rparr>;
          ran = run_plugins hook (plugins (fst init)) currentContext
      in (fst ran, fst init, snd init @ snd ran))"

text \<open>The names of the plugins whose handlers a run called, in the order of the calls.\<close>

fun invoked_names :: "event list \<Rightarrow> string list" where
  "invoked_names [] = []"
| "invoked_names (Invoked nm hook ctx # ev) = nm # invoked_names ev"
| "invoked_names (e # ev) = invoked_names ev"

fun invoked_contexts :: "event list \<Rightarrow> PluginContext list" where
  "invoked_contexts [] = []"
| "invoked_contexts (Invoked nm hook ctx # ev) = ctx # invoked_contexts ev"
| "invoked_contexts (e # ev) = invoked_contexts ev"

text \<open>
  The definitions \<^verbatim>\<open>initialize\<close> instantiates: those not disabled whose module
  loads.
\<close>

definition instantiated :: "loader \<Rightarrow> PluginDefinition \<Rightarrow> bool" where
  "instantiated req d = (enabled d \<noteq> Some False \<and> (case req d of Inr p \<Rightarrow> True | Inl msg \<Rightarrow> False))"

text \<open>
  A plugin made quiet: its handler writes to the working context what it wrote, and
  where it threw it now returns nothing. A module system that hands out the quiet
  plugins, and a manager whose registry holds them.
\<close>

definition quiet :: "Plugin \<Rightarrow> Plugin" where
  "quiet p =
     p\<lparr>onHook := (\<lambda>hook ctx. (fst (onHook p hook ctx),
                               case snd (onHook p hook ctx) of
                                 Throws msg \<Rightarrow> Returns None
                               | Returns yielded \<Rightarrow> Returns yielded))\<rparr>"

definition quiet_loader :: "loader \<Rightarrow> loader" where
  "quiet_loader req d = (case req d of Inr p \<Rightarrow> Inr (quiet p) | Inl msg \<Rightarrow> Inl msg)"

definition quiet_manager :: "PluginManager \<Rightarrow> PluginManager" where
  "quiet_manager pm = pm\<lparr>plugins := map (\<lambda>entry. (fst entry, quiet (snd entry))) (plugins pm)\<rparr>"

section \<open>The environment of a run\<close>

text \<open>
  The library functions of Node the script calls and this development does not define:
  the MD5 compression, \<^verbatim>\<open>JSON.parse\<close> on the text of the cache file (the message
  of the error where the text is not well-formed JSON, or is the document
  \<^verbatim>\<open>null\<close>, whose first property read throws) and \<^verbatim>\<open>JSON.stringify\<close> on a cache
  record, \<^verbatim>\<open>Number\<close>, the functions
  of \<^verbatim>\<open>path\<close>, \<^verbatim>\<open>__dirname\<close> and \<^verbatim>\<open>os.homedir()\<close>. Every theorem holds for
  whatever they compute.
\<close>

record platform =
  md5 :: "string \<Rightarrow> 128 word"
  JSON_parse :: "string \<Rightarrow> string + cacheData"
  JSON_stringify :: "cacheData \<Rightarrow> string"
  Number_of :: "string \<Rightarrow> jsnum"
  path_join :: "path \<Rightarrow> string \<Rightarrow> path"
  path_resolve :: "path \<Rightarrow> string \<Rightarrow> path"
  path_dirname :: "path \<Rightarrow> path"
  path_delimiter :: string
  script_dirname :: path
  homedir :: path

definition md5_hex :: "platform \<Rightarrow> string \<Rightarrow> string" where
  "md5_hex L s = hex_digest (md5 L s)"

text \<open>
  A directory as \<^verbatim>\<open>readdirSync(dir, {withFileTypes: true})\<close> walks it: it cannot be
  read (the call throws the message), or lists entries. An entry for which
  \<^verbatim>\<open>isDirectory()\<close> holds carries its own directory; any other entry carries what
  \<^verbatim>\<open>statSync(fullPath).mtime.getTime()\<close> gives, \<open>None\<close> where \<^verbatim>\<open>statSync\<close> throws.
\<close>

datatype entry = FileEntry string "int option" | DirEntry string dir
  and dir = Readable "entry list" | Unreadable string

text \<open>
  What a path names: a regular file with the text \<^verbatim>\<open>readFileSync\<close> returns (or the
  message it throws) and its modification time, or a directory.
\<close>

datatype node = RegularFile "string + string" int | Directory dir int

text \<open>
  The outcome of \<^verbatim>\<open>spawnSync(executable, ['-c', ...])\<close> (exit status, \<^verbatim>\<open>null\<close> when
  the process did not start, standard output and standard error; or an exception), and
  of the generator process: it ran and \<^verbatim>\<open>close\<close> carries its exit code (\<^verbatim>\<open>null\<close>
  when a signal ended it), with the text it wrote to the temporary file and its standard
  error; or it could not be started, \<^verbatim>\<open>error\<close> carries the message, and
  \<^verbatim>\<open>close\<close> follows with the negative error number as exit code, kept here as the
  error number less one.
\<close>

datatype spawn_outcome = Completed "int option" string string | SpawnThrew string

datatype generator_outcome = Exited "int option" string string | FailedToStart string nat

record pyversion =
  major :: jsnum
  minor :: jsnum
  micro :: jsnum
  raw :: string
  isSupported :: bool

text \<open>
  The world a run finds: the file system by path, the process environment, what the
  interpreters answer, the clock, and the paths at which writing or creating a
  directory fails. The paths the script names itself (cache file, output file, generator
  script, stub locations) are looked up in \<open>fs\<close>; the files below a stub location are
  those of its \<open>dir\<close>. \<open>interpreter_search\<close> is the list \<^verbatim>\<open>possibleVersions\<close> that the
  platform-specific search of \<^verbatim>\<open>findBestPythonExecutable\<close> ends with, sorted by
  distance from the preferred version, and \<open>search_processes\<close> the child processes
  that search starts on the way (\<^verbatim>\<open>which\<close> and the version probes of the candidates
  found), in order; \<open>configured_plugins\<close> is the list of definitions
  \<^verbatim>\<open>setupPlugins\<close> gathers from the configuration file and the plugin directory.
\<close>

record world =
  fs :: "path \<rightharpoonup> node"
  process_env :: "string \<rightharpoonup> string"
  version_probe :: "string \<Rightarrow> spawn_outcome"
  interpreter_search :: "(string \<times> pyversion) list"
  search_processes :: "(string \<times> string list) list"
  run_generator :: "string \<Rightarrow> path \<Rightarrow> (string \<rightharpoonup> string) \<Rightarrow> generator_outcome"
  clock :: int
  write_error :: "path \<rightharpoonup> string"
  configured_plugins :: "PluginDefinition list"

definition existsSync :: "world \<Rightarrow> path \<Rightarrow> bool" where
  "existsSync w p = (fs w p \<noteq> None)"

definition readFileSync :: "world \<Rightarrow> path \<Rightarrow> string + string" where
  "readFileSync w p =
     (case fs w p of
        Some (RegularFile c m) \<Rightarrow> c
      | Some (Directory d m) \<Rightarrow> Inl (''EISDIR: illegal operation on a directory, read'')
      | None \<Rightarrow> Inl (''ENOENT: no such file or directory, open '' @ p))"

definition statSync_mtime :: "world \<Rightarrow> path \<Rightarrow> string + int" where
  "statSync_mtime w p =
     (case fs w p of
        Some (RegularFile c m) \<Rightarrow> Inr m
      | Some (Directory d m) \<Rightarrow> Inr m
      | None \<Rightarrow> Inl (''ENOENT: no such file or directory, stat '' @ p))"

definition readdirSync :: "world \<Rightarrow> path \<Rightarrow> dir" where
  "readdirSync w p =
     (case fs w p of
        Some (Directory d m) \<Rightarrow> d
      | Some (RegularFile c m) \<Rightarrow> Unreadable (''ENOTDIR: not a directory, scandir '' @ p)
      | None \<Rightarrow> Unreadable (''ENOENT: no such file or directory, scandir '' @ p))"

text \<open>
  \<^verbatim>\<open>writeFileSync\<close>: fails with the world's message for the path, fails on a
  directory, or leaves a regular file with the given text, modified now.
\<close>

definition writeFileSync :: "world \<Rightarrow> path \<Rightarrow> string \<Rightarrow> string + world" where
  "writeFileSync w p text_written =
     (case write_error w p of
        Some msg \<Rightarrow> Inl msg
      | None \<Rightarrow>
          (case fs w p of
             Some (Directory d m) \<Rightarrow> Inl (''EISDIR: illegal operation on a directory, open '' @ p)
           | other \<Rightarrow> Inr (w\<lparr>fs := (fs w)(p \<mapsto> RegularFile (Inr text_written) (clock w))\<rparr>)))"

definition mkdirSync :: "world \<Rightarrow> path \<Rightarrow> string + world" where
  "mkdirSync w p =
     (case write_error w p of
        Some msg \<Rightarrow> Inl msg
      | None \<Rightarrow> Inr (w\<lparr>fs := (fs w)(p \<mapsto> Directory (Readable []) (clock w))\<rparr>))"

section \<open>The generator driver (scripts/generate-types.js)\<close>

text \<open>
  \<^verbatim>\<open>logPerf\<close> prints in debug mode only; the elapsed seconds it puts before the
  message are left out of the line.
\<close>

definition logPerf :: "Config \<Rightarrow> string \<Rightarrow> event list" where
  "logPerf cfg message = (if debugMode cfg then [ConsoleError (''[PERF] '' @ message)] else [])"

text \<open>
  A step inside a \<^verbatim>\<open>try\<close> block of a function that returns a boolean: the function
  returns there, an exception is thrown, or control goes on with a value.
\<close>

datatype 'a flow = Return bool | Throw string | Continue 'a

definition and_then :: "'a flow \<times> event list \<Rightarrow> ('a \<Rightarrow> 'b flow \<times> event list) \<Rightarrow> 'b flow \<times> event list" where
  "and_then m f =
     (case fst m of
        Continue x \<Rightarrow> with_events (snd m) (f x)
      | Return b \<Rightarrow> (Return b, snd m)
      | Throw e \<Rightarrow> (Throw e, snd m))"

definition or_throw :: "string + 'a \<Rightarrow> 'a flow \<times> event list" where
  "or_throw r = (case r of Inl e \<Rightarrow> (Throw e, []) | Inr x \<Rightarrow> (Continue x, []))"

subsection \<open>checkPythonVersion\<close>

definition version_args :: "string list" where
  \<open>version_args =
     [''-c'',
      ''import sys; print(f"{sys.version_info.major}.{sys.version_info.minor}.{sys.version_info.micro}")'']\<close>

definition version_components :: "platform \<Rightarrow> string \<Rightarrow> jsnum list" where
  "version_components L v = map (Number_of L) (split_on CHR ''.'' v)"

definition in_supported_range :: "platform \<Rightarrow> Config \<Rightarrow> jsnum \<Rightarrow> jsnum \<Rightarrow> bool" where
  "in_supported_range L cfg mj mn =
     (let minComponents = version_components L (pythonMinVersion cfg);
          maxComponents = version_components L (pythonMaxVersion cfg)
      in (js_gt mj (js_nth minComponents 0) \<or> (js_strict_eq mj (js_nth minComponents 0) \<and> js_ge mn (js_nth minComponents 1)))
       \<and> (js_lt mj (js_nth maxComponents 0) \<or> (js_strict_eq mj (js_nth maxComponents 0) \<and> js_le mn (js_nth maxComponents 1))))"

definition checkPythonVersion :: "platform \<Rightarrow> Config \<Rightarrow> world \<Rightarrow> pyversion option \<times> event list" where
  "checkPythonVersion L cfg w =
     with_events [Spawned (pythonExecutable cfg) version_args]
       (case version_probe w (pythonExecutable cfg) of
          SpawnThrew msg \<Rightarrow> (None, [ConsoleError (''Error checking Python version: '' @ msg)])
        | Completed status out err \<Rightarrow>
            (if status \<noteq> Some 0 then (None, [ConsoleError (''Error checking Python version: '' @ err)])
             else
               (let version = trim out;
                    comps = version_components L version;
                    supported = in_supported_range L cfg (js_nth comps 0) (js_nth comps 1)
                in (Some \<lparr>major = js_nth comps 0, minor = js_nth comps 1, micro = js_nth comps 2,
                          raw = version, isSupported = supported\<rparr>,
                    logPerf cfg (''Detected Python version: '' @ version)
                    @ (if \<not> supported
                       then [ConsoleWarn (''Warning: Python version '' @ version
                               @ '' is outside the supported range ('' @ pythonMinVersion cfg
                               @ '' - '' @ pythonMaxVersion cfg @ '')'')]
                       else [])))))"

subsection \<open>findBestPythonExecutable\<close>

text \<open>
  The configured interpreter if its version is supported; else the closest of the
  supported interpreters the search found; else, with a warning, the configured one.
\<close>

definition findBestPythonExecutable ::
  "platform \<Rightarrow> Config \<Rightarrow> world \<Rightarrow> (string \<times> pyversion option) \<times> event list" where
  "findBestPythonExecutable L cfg w =
     (let probe = checkPythonVersion L cfg w;
          currentVersion = fst probe;
          searched = map (\<lambda>started. Spawned (fst started) (snd started)) (search_processes w)
      in if (case currentVersion of Some v \<Rightarrow> isSupported v | None \<Rightarrow> False)
         then ((pythonExecutable cfg, currentVersion), snd probe)
         else
           (case interpreter_search w of
              [] \<Rightarrow>
                ((pythonExecutable cfg, currentVersion),
                 snd probe @ searched
                 @ [ConsoleWarn (''No supported Python version found. Proceeding with default executable: ''
                                @ pythonExecutable cfg)])
            | bestMatch # others \<Rightarrow>
                ((fst bestMatch, Some (snd bestMatch)),
                 snd probe @ searched
                 @ logPerf cfg (''Using Python '' @ raw (snd bestMatch) @ '' at '' @ fst bestMatch))))"

subsection \<open>setupPlugins and executePluginHook\<close>

definition setupPlugins :: "loader \<Rightarrow> Config \<Rightarrow> world \<Rightarrow> PluginManager option \<times> event list" where
  "setupPlugins req cfg w =
     (if \<not> pluginsEnabled cfg then (None, logPerf cfg ''Plugins disabled'')
      else
        (let pluginDefs_found = configured_plugins w
         in if length pluginDefs_found > 0
            then (let init = initialize req (new_PluginManager pluginDefs_found)
                  in (Some (fst init),
                      snd init @ logPerf cfg (''Initialized plugin manager with ''
                        @ decimal (int (length pluginDefs_found)) @ '' plugins'')))
            else (None, logPerf cfg ''No plugins found'')))"

text \<open>
  \<^verbatim>\<open>executePluginHook\<close>: the context as it is without a manager, else the manager's
  \<^verbatim>\<open>executeHook\<close>. (Its \<^verbatim>\<open>catch\<close> returns the context unchanged; no path of
  \<^verbatim>\<open>executeHook\<close> above throws.)
\<close>

definition executePluginHook ::
  "loader \<Rightarrow> PluginManager option \<Rightarrow> PluginHook \<Rightarrow> PluginContext \<Rightarrow> PluginContext \<times> PluginManager option \<times> event list" where
  "executePluginHook req pluginManager hook ctx =
     (case pluginManager of
        None \<Rightarrow> (ctx, None, [])
      | Some pm \<Rightarrow>
          (let r = executeHook req pm hook ctx
           in (fst r, Some (fst (snd r)), snd (snd r))))"

text \<open>The context the script builds for a hook: its \<^verbatim>\<open>config\<close> and nothing else yet.\<close>

definition script_context :: "Config \<Rightarrow> PluginContext" where
  "script_context cfg =
     \<lparr>config = cfg, metadata_forceRegeneration = None, metadata_env = None,
      metadata_cache = None, metadata_other = [], tsOutput = None, hook_error = None,
      pluginData = [], logger = None\<rparr>"

subsection \<open>findStubDirectories\<close>

definition potentialLocations :: "platform \<Rightarrow> path list" where
  "potentialLocations L =
     [path_resolve L (script_dirname L) ''../stubs'',
      path_resolve L (script_dirname L) ''../node_modules/@types'',
      path_resolve L (homedir L) ''.local/lib/python3/stubs'']"

definition envStubPath :: "world \<Rightarrow> string option" where
  "envStubPath w = or_else (process_env w ''TYPESHED_PATH'') (process_env w ''MYPY_CONFIG_FILE_PATH'')"

definition findStubDirectories :: "platform \<Rightarrow> Config \<Rightarrow> world \<Rightarrow> path list \<times> event list" where
  "findStubDirectories L cfg w =
     (let found = filter (existsSync w) (potentialLocations L);
          stubDirs = found @ (case envStubPath w of
                                Some p \<Rightarrow> (if truthy p \<and> existsSync w p then [p] else [])
                              | None \<Rightarrow> [])
      in (stubDirs,
          concat (map (\<lambda>d. logPerf cfg (''Found stub directory: '' @ d)) found)
          @ (case envStubPath w of
               Some p \<Rightarrow> (if truthy p \<and> existsSync w p
                           then logPerf cfg (''Found stub directory from environment: '' @ p) else [])
             | None \<Rightarrow> [])))"

subsection \<open>Stub files and their fingerprint\<close>

text \<open>
  The walk \<^verbatim>\<open>findStubFiles\<close> inside \<^verbatim>\<open>needsRegeneration\<close>: it pushes the
  \<^verbatim>\<open>.pyi\<close> files it meets, each here with what \<^verbatim>\<open>statSync\<close> will give for it, and
  an unreadable directory throws out of the whole walk of the stub location, leaving
  the files pushed so far. The result is those files and the message thrown, if any.
\<close>

fun findStubFiles_nr :: "platform \<Rightarrow> path \<Rightarrow> dir \<Rightarrow> (path \<times> int option) list \<times> string option"
  and findStubFiles_nr_entries :: "platform \<Rightarrow> path \<Rightarrow> entry list \<Rightarrow> (path \<times> int option) list \<times> string option" where
  "findStubFiles_nr L currentDir (Unreadable msg) = ([], Some msg)"
| "findStubFiles_nr L currentDir (Readable entries) = findStubFiles_nr_entries L currentDir entries"
| "findStubFiles_nr_entries L currentDir [] = ([], None)"
| "findStubFiles_nr_entries L currentDir (FileEntry nm st # rest) =
     (let r = findStubFiles_nr_entries L currentDir rest
      in if endsWith nm ''.pyi'' then ((path_join L currentDir nm, st) # fst r, snd r) else r)"
| "findStubFiles_nr_entries L currentDir (DirEntry nm d # rest) =
     (let sub = findStubFiles_nr L (path_join L currentDir nm) d
      in case snd sub of
           Some msg \<Rightarrow> sub
         | None \<Rightarrow> (let r = findStubFiles_nr_entries L currentDir rest in (fst sub @ fst r, snd r)))"

fun collect_nr :: "platform \<Rightarrow> world \<Rightarrow> path list \<Rightarrow> (path \<times> int option) list \<times> event list" where
  "collect_nr L w [] = ([], [])"
| "collect_nr L w (d # ds) =
     (let found = findStubFiles_nr L d (readdirSync w d);
          r = collect_nr L w ds
      in (fst found @ fst r,
          (case snd found of
             Some msg \<Rightarrow> [ConsoleWarn (''Couldn't read directory '' @ d @ '': '' @ msg)]
           | None \<Rightarrow> [])
          @ snd r))"

text \<open>
  The walk \<^verbatim>\<open>findStubFiles\<close> inside \<^verbatim>\<open>updateCache\<close>: it catches inside, so an
  unreadable directory is skipped with a warning and the walk goes on after it.
\<close>

fun findStubFiles_uc :: "platform \<Rightarrow> path \<Rightarrow> dir \<Rightarrow> (path \<times> int option) list \<times> event list"
  and findStubFiles_uc_entries :: "platform \<Rightarrow> path \<Rightarrow> entry list \<Rightarrow> (path \<times> int option) list \<times> event list" where
  "findStubFiles_uc L currentDir (Unreadable msg) =
     ([], [ConsoleWarn (''Couldn't read directory '' @ currentDir @ '': '' @ msg)])"
| "findStubFiles_uc L currentDir (Readable entries) = findStubFiles_uc_entries L currentDir entries"
| "findStubFiles_uc_entries L currentDir [] = ([], [])"
| "findStubFiles_uc_entries L currentDir (FileEntry nm st # rest) =
     (let r = findStubFiles_uc_entries L currentDir rest
      in if endsWith nm ''.pyi'' then ((path_join L currentDir nm, st) # fst r, snd r) else r)"
| "findStubFiles_uc_entries L currentDir (DirEntry nm d # rest) =
     (let sub = findStubFiles_uc L (path_join L currentDir nm) d;
          r = findStubFiles_uc_entries L currentDir rest
      in (fst sub @ fst r, snd sub @ snd r))"

fun collect_uc :: "platform \<Rightarrow> world \<Rightarrow> path list \<Rightarrow> (path \<times> int option) list \<times> event list" where
  "collect_uc L w [] = ([], [])"
| "collect_uc L w (d # ds) =
     (let found = findStubFiles_uc L d (readdirSync w d);
          r = collect_uc L w ds
      in (fst found @ fst r, snd found @ snd r))"

text \<open>
  \<^verbatim>\<open>stubFiles.length > 100 ? stubFiles.slice(0, 5).concat(stubFiles.slice(-5)) : stubFiles\<close>,
  then \<^verbatim>\<open>path:mtime\<close> for each sampled file (the first \<^verbatim>\<open>statSync\<close> that throws
  ends it), joined by \<^verbatim>\<open>|\<close>.
\<close>

definition samplesToCheck :: "'a list \<Rightarrow> 'a list" where
  "samplesToCheck stubFiles =
     (if length stubFiles > 100 then take 5 stubFiles @ drop (length stubFiles - 5) stubFiles
      else stubFiles)"

fun stat_lines :: "(path \<times> int option) list \<Rightarrow> string + string list" where
  "stat_lines [] = Inr []"
| "stat_lines ((file, None) # rest) = Inl (''ENOENT: no such file or directory, stat '' @ file)"
| "stat_lines ((file, Some t) # rest) =
     (case stat_lines rest of
        Inl e \<Rightarrow> Inl e
      | Inr ls \<Rightarrow> Inr ((file @ '':'' @ decimal t) # ls))"

definition stubsHashInput :: "(path \<times> int option) list \<Rightarrow> string + string" where
  "stubsHashInput samples = (case stat_lines samples of Inl e \<Rightarrow> Inl e | Inr ls \<Rightarrow> Inr (join ''|'' ls))"

subsection \<open>needsRegeneration\<close>

definition versionCompatPath :: "platform \<Rightarrow> Config \<Rightarrow> path" where
  "versionCompatPath L cfg = path_resolve L (path_dirname L (pythonScript cfg)) ''version_compat.py''"

text \<open>\<^verbatim>\<open>new Date(cacheData.lastGenerated) < mtime\<close>.\<close>

definition generated_before :: "int option \<Rightarrow> int \<Rightarrow> bool" where
  "generated_before generated t = (case generated of Some g \<Rightarrow> g < t | None \<Rightarrow> False)"

text \<open>The generator script and the compatibility shim against the time of the last generation.\<close>

definition script_mtime_checks :: "platform \<Rightarrow> Config \<Rightarrow> world \<Rightarrow> cacheData \<Rightarrow> unit flow \<times> event list" where
  "script_mtime_checks L cfg w cached =
     (if \<not> existsSync w (pythonScript cfg)
      then (Return True, logPerf cfg ''Python script not found - generating types'')
      else
        and_then (or_throw (statSync_mtime w (pythonScript cfg))) (\<lambda>scriptMtime.
          if generated_before (lastGenerated cached) scriptMtime
          then (Return True, logPerf cfg ''Python script modified since last generation'')
          else if existsSync w (versionCompatPath L cfg)
          then
            and_then (or_throw (statSync_mtime w (versionCompatPath L cfg))) (\<lambda>versionCompatMtime.
              if generated_before (lastGenerated cached) versionCompatMtime
              then (Return True,
                    logPerf cfg ''Python version compatibility script modified since last generation'')
              else (Continue (), []))
          else (Continue (), [])))"

text \<open>The interpreter is asked for its version when the record holds one.\<close>

definition python_version_check :: "platform \<Rightarrow> Config \<Rightarrow> world \<Rightarrow> cacheData \<Rightarrow> unit flow \<times> event list" where
  "python_version_check L cfg w cached =
     (case pythonVersion cached of
        None \<Rightarrow> (Continue (), [])
      | Some recorded \<Rightarrow>
          (if \<not> truthy recorded then (Continue (), [])
           else
             (let probe = checkPythonVersion L cfg w
              in case fst probe of
                   None \<Rightarrow> (Continue (), snd probe)
                 | Some v \<Rightarrow>
                     (if raw v \<noteq> recorded
                      then (Return True,
                            snd probe @ logPerf cfg (''Python version changed from '' @ recorded @ '' to '' @ raw v))
                      else (Continue (), snd probe)))))"

definition output_file_check :: "Config \<Rightarrow> world \<Rightarrow> unit flow \<times> event list" where
  "output_file_check cfg w =
     (if \<not> existsSync w (outputFile cfg)
      then (Return True, logPerf cfg ''Output file not found - generating types'')
      else (Continue (), []))"

definition stub_files_check :: "platform \<Rightarrow> Config \<Rightarrow> world \<Rightarrow> cacheData \<Rightarrow> unit flow \<times> event list" where
  "stub_files_check L cfg w cached =
     (if truthy_opt (stubFilesHash cached)
      then
        (let stubDirs = findStubDirectories L cfg w;
             collected = collect_nr L w (fst stubDirs);
             stubFiles = fst collected;
             ev = snd stubDirs @ snd collected
                  @ logPerf cfg (''Found '' @ decimal (int (length stubFiles)) @ '' stub files'')
         in if length stubFiles > 0
            then
              with_events ev
                (and_then (or_throw (stubsHashInput (samplesToCheck stubFiles))) (\<lambda>input.
                   if stubFilesHash cached \<noteq> Some (md5_hex L input)
                   then (Return True, logPerf cfg ''Stub files changed since last generation'')
                   else (Continue (), [])))
            else (Continue (), ev))
      else (Return True, logPerf cfg ''No stub files hash in cache''))"

definition content_hash_checks :: "platform \<Rightarrow> Config \<Rightarrow> world \<Rightarrow> cacheData \<Rightarrow> unit flow \<times> event list" where
  "content_hash_checks L cfg w cached =
     and_then (or_throw (readFileSync w (pythonScript cfg))) (\<lambda>scriptContent.
       if scriptHash cached \<noteq> Some (md5_hex L scriptContent)
       then (Return True, logPerf cfg ''Python script content changed - generating types'')
       else if existsSync w (versionCompatPath L cfg)
       then
         and_then (or_throw (readFileSync w (versionCompatPath L cfg))) (\<lambda>versionCompatContent.
           if versionCompatHash cached \<noteq> Some (md5_hex L versionCompatContent)
           then (Return True,
                 logPerf cfg ''Python version compatibility script content changed - generating types'')
           else (Continue (), []))
       else (Continue (), []))"

text \<open>
  The \<^verbatim>\<open>try\<close> block up to the plugin hook: it returns, throws, or passes every check
  and goes on with the cache record.
\<close>

definition cache_checks :: "platform \<Rightarrow> Config \<Rightarrow> world \<Rightarrow> cacheData flow \<times> event list" where
  "cache_checks L cfg w =
     (if \<not> existsSync w (cacheFile cfg)
      then (Return True, logPerf cfg ''No cache file found - generating types'')
      else
        and_then (or_throw (readFileSync w (cacheFile cfg))) (\<lambda>cache_text.
        and_then (or_throw (JSON_parse L cache_text)) (\<lambda>cached.
        and_then (script_mtime_checks L cfg w cached) (\<lambda>u1.
        and_then (python_version_check L cfg w cached) (\<lambda>u2.
        and_then (output_file_check cfg w) (\<lambda>u3.
        and_then (stub_files_check L cfg w cached) (\<lambda>u4.
        and_then (content_hash_checks L cfg w cached) (\<lambda>u5.
          (Continue cached, [])))))))))"

definition pre_generation_context :: "Config \<Rightarrow> cacheData \<Rightarrow> PluginContext" where
  "pre_generation_context cfg cached =
     (script_context cfg)
       \<lparr>metadata_cache := Some cached,
        metadata_other := [(''pythonScriptPath'', Some (pythonScript cfg)),
                           (''outputFilePath'', Some (outputFile cfg))],
        metadata_forceRegeneration := Some (forceRegeneration cfg)\<rparr>"

definition needsRegeneration ::
  "platform \<Rightarrow> loader \<Rightarrow> Config \<Rightarrow> PluginManager option \<Rightarrow> world \<Rightarrow> bool \<times> PluginManager option \<times> event list" where
  "needsRegeneration L req cfg pluginManager w =
     (if forceRegeneration cfg
      then (True, pluginManager, logPerf cfg ''Force regeneration requested'')
      else
        (let checks = cache_checks L cfg w
         in case fst checks of
              Return b \<Rightarrow> (b, pluginManager, snd checks)
            | Throw e \<Rightarrow>
                (True, pluginManager,
                 snd checks @ logPerf cfg (''Error checking if regeneration needed: '' @ e))
            | Continue cached \<Rightarrow>
                (let hooked = executePluginHook req pluginManager PRE_GENERATION
                                (pre_generation_context cfg cached)
                 in if metadata_forceRegeneration (fst hooked) = Some True
                    then (True, fst (snd hooked),
                          snd checks @ snd (snd hooked) @ logPerf cfg ''Regeneration forced by plugin'')
                    else (False, fst (snd hooked),
                          snd checks @ snd (snd hooked)
                          @ logPerf cfg ''No regeneration needed - using cached types''))))"

subsection \<open>generateTypes\<close>

definition toLowerCase :: "string \<Rightarrow> string" where
  "toLowerCase s =
     map (\<lambda>c. let n = (of_char c :: nat) in if 65 \<le> n \<and> n \<le> 90 then char_of (n + 32) else c) s"

fun includes_str :: "string \<Rightarrow> string \<Rightarrow> bool" where
  "includes_str [] sub = (sub = [])"
| "includes_str (x # xs) sub = (take (length sub) (x # xs) = sub \<or> includes_str xs sub)"

definition warning_lines :: "string \<Rightarrow> string" where
  "warning_lines errorData =
     join [CHR 0x0A]
       (filter (\<lambda>line. includes_str (toLowerCase line) ''warning'' \<and> \<not> includes_str line ''[PERF]'')
          (split_on (CHR 0x0A) errorData))"

definition version_text :: "pyversion option \<Rightarrow> string option" where
  "version_text v = (case v of Some pv \<Rightarrow> Some (raw pv) | None \<Rightarrow> None)"

definition code_text :: "int option \<Rightarrow> string" where
  "code_text code = (case code of Some c \<Rightarrow> decimal c | None \<Rightarrow> ''null'')"

text \<open>The environment handed to the generator process, before plugins add to it.\<close>

definition generator_env :: "platform \<Rightarrow> Config \<Rightarrow> world \<Rightarrow> path list \<Rightarrow> (string \<rightharpoonup> string)" where
  "generator_env L cfg w stubDirs =
     (let env1 = (if debugMode cfg then (process_env w)(''DEBUG'' \<mapsto> ''1'') else process_env w);
          env2 = env1(''USE_TS_49_FEATURES'' \<mapsto> (if useTS49Features cfg then ''true'' else ''false''))
      in if length stubDirs > 0
         then env2(''TYPESHED_PATH'' \<mapsto> join (path_delimiter L) stubDirs)
         else env2)"

definition pre_conversion_context :: "Config \<Rightarrow> string option \<Rightarrow> (string \<rightharpoonup> string) \<Rightarrow> PluginContext" where
  "pre_conversion_context cfg pv env_built =
     (script_context cfg)
       \<lparr>metadata_other := [(''pythonScript'', Some (pythonScript cfg)), (''pythonVersion'', pv)],
        metadata_env := Some env_built\<rparr>"

definition on_error_context :: "Config \<Rightarrow> string \<Rightarrow> (string \<times> string option) list \<Rightarrow> PluginContext" where
  "on_error_context cfg msg other = (script_context cfg)\<lparr>hook_error := Some msg, metadata_other := other\<rparr>"

definition post_conversion_context :: "Config \<Rightarrow> string \<Rightarrow> string \<Rightarrow> string option \<Rightarrow> PluginContext" where
  "post_conversion_context cfg output errorData pv =
     (script_context cfg)
       \<lparr>tsOutput := Some output,
        metadata_other := [(''warnings'', Some (warning_lines errorData)),
                           (''errorOutput'', Some errorData),
                           (''pythonVersion'', pv)]\<rparr>"

text \<open>
  What the promise of the post-conversion hook settles \<^verbatim>\<open>generateTypes\<close> with: on
  fulfilment \<^verbatim>\<open>postContext.tsOutput || output\<close>, on rejection \<^verbatim>\<open>output\<close>.
\<close>

definition resolve_output :: "string \<Rightarrow> string + PluginContext \<Rightarrow> string" where
  "resolve_output output settled =
     (case settled of
        Inr postContext \<Rightarrow>
          (case tsOutput postContext of
             Some t \<Rightarrow> (if truthy t then t else output)
           | None \<Rightarrow> output)
      | Inl e \<Rightarrow> output)"

definition post_conversion ::
  "loader \<Rightarrow> Config \<Rightarrow> PluginManager option \<Rightarrow> string \<Rightarrow> string \<Rightarrow> string option
     \<Rightarrow> string \<times> PluginManager option \<times> event list" where
  "post_conversion req cfg pluginManager output errorData pv =
     (let hooked = executePluginHook req pluginManager POST_CONVERSION
                     (post_conversion_context cfg output errorData pv)
      in (resolve_output output (Inr (fst hooked)),
          fst (snd hooked),
          (if truthy (warning_lines errorData) \<and> debugMode cfg
           then [ConsoleWarn (''Warnings during type generation:'' @ [CHR 0x0A] @ '' '' @ warning_lines errorData)]
           else [])
          @ snd (snd hooked)))"

text \<open>
  The handler of \<^verbatim>\<open>close\<close>, by which time the standard output of the child is the
  content of the temporary file: what it settles the promise of \<^verbatim>\<open>generateTypes\<close>
  with, a rejection with a message (\<open>Inl\<close>) or the output and the interpreter's
  version. The echo of \<^verbatim>\<open>[PERF]\<close> chunks of the child's standard error in debug mode
  is left out of the events.
\<close>

definition on_close ::
  "loader \<Rightarrow> Config \<Rightarrow> PluginManager option \<Rightarrow> world \<Rightarrow> string option \<Rightarrow> int option \<Rightarrow> string
     \<Rightarrow> (string + string \<times> string option) \<times> PluginManager option \<times> event list" where
  "on_close req cfg pm1 w pv code errorData =
     (let ev3 = logPerf cfg (''Python process exited with code '' @ code_text code)
      in if code \<noteq> Some 0
         then
           (let failed = executePluginHook req pm1 ON_ERROR
                           (on_error_context cfg (''Python process exited with code '' @ code_text code)
                              [(''errorOutput'', Some errorData), (''pythonVersion'', pv)])
            in (Inl (''Python process exited with code '' @ code_text code @ [CHR 0x0A] @ errorData),
                fst (snd failed), ev3 @ snd (snd failed)))
         else
           (case readFileSync w (tempOutputFile cfg) of
              Inl e \<Rightarrow> (Inl (''Failed to read generated types: '' @ e), pm1, ev3)
            | Inr output \<Rightarrow>
                (let pc = post_conversion req cfg pm1 output errorData pv
                 in (Inr (fst pc, pv), fst (snd pc), ev3 @ snd (snd pc)))))"

text \<open>
  The end of the child process. When it ran, the handler of \<^verbatim>\<open>close\<close>. When it
  could not be started, the handler of \<^verbatim>\<open>error\<close> runs the error hook and rejects,
  and the handler of \<^verbatim>\<open>close\<close> that follows runs the error hook once more; its
  rejection comes second and changes nothing. The two runs of the hook are taken one
  after the other.
\<close>

definition on_process_end ::
  "loader \<Rightarrow> Config \<Rightarrow> PluginManager option \<Rightarrow> world \<Rightarrow> string option \<Rightarrow> generator_outcome
     \<Rightarrow> (string + string \<times> string option) \<times> PluginManager option \<times> world \<times> event list" where
  "on_process_end req cfg pm1 w1 pv ended =
     (case ended of
        FailedToStart msg errno \<Rightarrow>
          (let failed = executePluginHook req pm1 ON_ERROR
                          (on_error_context cfg msg
                             [(''message'', Some ''Failed to start Python process''),
                              (''errorOutput'', Some []), (''pythonVersion'', pv)]);
               closed = on_close req cfg (fst (snd failed)) w1 pv (Some (- int (Suc errno))) []
           in (Inl (''Failed to start Python process: '' @ msg), fst (snd closed), w1,
               snd (snd failed) @ snd (snd closed)))
      | Exited code out errorData \<Rightarrow>
          (let w2 = w1\<lparr>fs := (fs w1)(tempOutputFile cfg \<mapsto> RegularFile (Inr out) (clock w1))\<rparr>;
               closed = on_close req cfg pm1 w2 pv code errorData
           in (fst closed, fst (snd closed), w2, snd (snd closed))))"

text \<open>
  The pre-conversion hook of \<^verbatim>\<open>generateTypes\<close>, and the environment the child is
  given: \<^verbatim>\<open>Object.assign(env, preContext.metadata.env)\<close> where the hook left one.
\<close>

definition pre_conversion ::
  "platform \<Rightarrow> loader \<Rightarrow> Config \<Rightarrow> PluginManager option \<Rightarrow> world
     \<Rightarrow> PluginContext \<times> PluginManager option \<times> event list" where
  "pre_conversion L req cfg pluginManager w =
     executePluginHook req pluginManager PRE_CONVERSION
       (pre_conversion_context cfg (version_text (snd (fst (findBestPythonExecutable L cfg w))))
          (generator_env L cfg w (fst (findStubDirectories L cfg w))))"

definition child_env :: "platform \<Rightarrow> loader \<Rightarrow> Config \<Rightarrow> PluginManager option \<Rightarrow> world \<Rightarrow> (string \<rightharpoonup> string)" where
  "child_env L req cfg pluginManager w =
     (let env_built = generator_env L cfg w (fst (findStubDirectories L cfg w))
      in case metadata_env (fst (pre_conversion L req cfg pluginManager w)) of
           Some added \<Rightarrow> env_built ++ added
         | None \<Rightarrow> env_built)"

text \<open>
  \<^verbatim>\<open>generateTypes\<close>: the interpreter, the environment, the pre-conversion hook, the
  temporary file opened for writing, the child process.
\<close>

definition generateTypes ::
  "platform \<Rightarrow> loader \<Rightarrow> Config \<Rightarrow> PluginManager option \<Rightarrow> world
     \<Rightarrow> (string + string \<times> string option) \<times> PluginManager option \<times> world \<times> event list" where
  "generateTypes L req cfg pluginManager w =
     (let pythonInfo = findBestPythonExecutable L cfg w;
          executable = fst (fst pythonInfo);
          pv = version_text (snd (fst pythonInfo));
          stubDirs = findStubDirectories L cfg w;
          ev1 = logPerf cfg ''Generating TypeScript types'' @ snd pythonInfo
                @ (case pv of Some r \<Rightarrow> logPerf cfg (''Using Python '' @ r @ '' for type generation'') | None \<Rightarrow> [])
                @ (if debugMode cfg
                   then logPerf cfg (''TypeScript 4.9+ features ''
                          @ (if useTS49Features cfg then ''enabled'' else ''disabled''))
                   else [])
                @ snd stubDirs
                @ (if length (fst stubDirs) > 0
                   then logPerf cfg (''Set TYPESHED_PATH environment variable with ''
                          @ decimal (int (length (fst stubDirs))) @ '' directories'')
                   else []);
          pre = pre_conversion L req cfg pluginManager w;
          pm1 = fst (snd pre);
          ev2 = ev1 @ snd (snd pre)
      in case writeFileSync w (tempOutputFile cfg) [] of
           Inl e \<Rightarrow> (Inl (''Failed to execute plugin hook: '' @ e), pm1, w, ev2)
         | Inr w1 \<Rightarrow>
             (let ended = on_process_end req cfg pm1 w1 pv
                            (run_generator w executable (pythonScript cfg)
                               (child_env L req cfg pluginManager w))
              in (fst ended, fst (snd ended), fst (snd (snd ended)),
                  ev2 @ [Spawned executable [pythonScript cfg]] @ snd (snd (snd ended)))))"

subsection \<open>writeOutput and updateCache\<close>

definition writeOutput :: "platform \<Rightarrow> Config \<Rightarrow> world \<Rightarrow> string \<Rightarrow> bool \<times> world \<times> event list" where
  "writeOutput L cfg w output =
     (let outputDir = path_dirname L (outputFile cfg);
          ev0 = logPerf cfg ''Writing generated types to file''
      in case (if \<not> existsSync w outputDir then mkdirSync w outputDir else Inr w) of
           Inl e \<Rightarrow> (False, w, ev0 @ [ConsoleError (''Error writing output: '' @ e)])
         | Inr w1 \<Rightarrow>
             (case writeFileSync w1 (outputFile cfg) output of
                Inl e \<Rightarrow> (False, w1, ev0 @ [ConsoleError (''Error writing output: '' @ e)])
              | Inr w2 \<Rightarrow>
                  (True, w2,
                   ev0 @ [WroteFile (outputFile cfg) output]
                   @ logPerf cfg (''Types written to '' @ outputFile cfg))))"

text \<open>The block of \<^verbatim>\<open>updateCache\<close> that computes \<^verbatim>\<open>stubFilesHash\<close>.\<close>

definition stub_fingerprint :: "platform \<Rightarrow> Config \<Rightarrow> world \<Rightarrow> string flow \<times> event list" where
  "stub_fingerprint L cfg w =
     (let stubDirs = findStubDirectories L cfg w
      in if length (fst stubDirs) > 0
         then
           (let collected = collect_uc L w (fst stubDirs);
                stubFiles = fst collected
            in if length stubFiles > 0
               then
                 with_events (snd stubDirs @ snd collected)
                   (and_then (or_throw (stubsHashInput (samplesToCheck stubFiles))) (\<lambda>input.
                      (Continue (md5_hex L input),
                       logPerf cfg (''Computed hash for '' @ decimal (int (length stubFiles)) @ '' stub files''))))
               else (Continue [], snd stubDirs @ snd collected))
         else (Continue [], snd stubDirs))"

definition updateCache ::
  "platform \<Rightarrow> Config \<Rightarrow> world \<Rightarrow> string \<Rightarrow> string option \<Rightarrow> bool \<times> world \<times> event list" where
  "updateCache L cfg w output pv =
     (let attempt =
            with_events (logPerf cfg ''Updating cache'')
              (and_then (or_throw (readFileSync w (pythonScript cfg))) (\<lambda>scriptContent.
               and_then (if existsSync w (versionCompatPath L cfg)
                         then and_then (or_throw (readFileSync w (versionCompatPath L cfg)))
                                (\<lambda>versionCompatContent. (Continue (md5_hex L versionCompatContent), []))
                         else (Continue [], [])) (\<lambda>versionCompatHash_new.
               and_then (stub_fingerprint L cfg w) (\<lambda>stubFilesHash_new.
                 (let cacheData_new =
                        \<lparr>lastGenerated = Some (clock w),
                         scriptHash = Some (md5_hex L scriptContent),
                         outputHash = Some (md5_hex L output),
                         stubFilesHash = Some stubFilesHash_new,
                         versionCompatHash = Some versionCompatHash_new,
                         pythonVersion = pv\<rparr>;
                      written = JSON_stringify L cacheData_new
                  in case writeFileSync w (cacheFile cfg) written of
                       Inl e \<Rightarrow> (Throw e, [])
                     | Inr w' \<Rightarrow>
                         (Continue w', WroteFile (cacheFile cfg) written # logPerf cfg ''Cache updated''))))))
      in case fst attempt of
           Continue w' \<Rightarrow> (True, w', snd attempt)
         | Throw e \<Rightarrow> (False, w, snd attempt @ [ConsoleError (''Error updating cache: '' @ e)])
         | Return b \<Rightarrow> (b, w, snd attempt))"

subsection \<open>cleanup and main\<close>

definition cleanup :: "Config \<Rightarrow> world \<Rightarrow> world \<times> event list" where
  "cleanup cfg w =
     (case fs w (tempOutputFile cfg) of
        None \<Rightarrow> (w, [])
      | Some (RegularFile c m) \<Rightarrow> (w\<lparr>fs := (fs w)(tempOutputFile cfg := None)\<rparr>, [])
      | Some (Directory d m) \<Rightarrow>
          (w, [ConsoleError (''Error cleaning up: EISDIR: illegal operation on a directory, unlink ''
                 @ tempOutputFile cfg)]))"

fun cleanup_plugins :: "(string \<times> Plugin) list \<Rightarrow> event list" where
  "cleanup_plugins [] = []"
| "cleanup_plugins ((nm, plugin) # rest) =
     (case plugin_cleanup plugin of
        Some (Some msg) \<Rightarrow> LogError (''Error cleaning up plugin '' @ nm @ '': '' @ msg) # cleanup_plugins rest
      | other \<Rightarrow> cleanup_plugins rest)"

definition PluginManager_cleanup :: "PluginManager \<Rightarrow> PluginManager \<times> event list" where
  "PluginManager_cleanup pm =
     (pm\<lparr>plugins := [], pluginConfigs := [], initialized := False\<rparr>, cleanup_plugins (plugins pm))"

definition post_generation_context :: "Config \<Rightarrow> string option \<Rightarrow> bool \<Rightarrow> string option \<Rightarrow> PluginContext" where
  "post_generation_context cfg output regenerated pv =
     (script_context cfg)
       \<lparr>tsOutput := output,
        metadata_other :=
          [(''success'', Some ''true''),
           (''regenerated'', Some (if regenerated then ''true'' else ''false'')),
           (''outputPath'', Some (outputFile cfg))]
          @ (if regenerated then [(''pythonVersion'', pv)] else [])\<rparr>"

text \<open>The \<^verbatim>\<open>finally\<close> block of \<^verbatim>\<open>main\<close>.\<close>

definition finally_block :: "Config \<Rightarrow> PluginManager option \<Rightarrow> world \<Rightarrow> world \<times> event list" where
  "finally_block cfg pluginManager w =
     (let cleaned = cleanup cfg w
      in (fst cleaned,
          snd cleaned @ (case pluginManager of Some pm \<Rightarrow> snd (PluginManager_cleanup pm) | None \<Rightarrow> [])))"

text \<open>
  \<^verbatim>\<open>main\<close>, with the exit code of the process. \<^verbatim>\<open>process.exit(1)\<close> in the
  \<^verbatim>\<open>catch\<close> ends the process there.
\<close>

definition main :: "platform \<Rightarrow> loader \<Rightarrow> Config \<Rightarrow> world \<Rightarrow> int \<times> world \<times> event list" where
  "main L req cfg w =
     (let sp = setupPlugins req cfg w;
          nr = needsRegeneration L req cfg (fst sp) w;
          ev0 = logPerf cfg ''Starting type generation'' @ logPerf cfg ''Starting type generation''
                @ snd sp @ snd (snd nr)
      in if fst nr
         then
           (let g = generateTypes L req cfg (fst (snd nr)) w
            in case fst g of
                 Inl msg \<Rightarrow>
                   (1, fst (snd (snd g)),
                    ev0 @ snd (snd (snd g)) @ [ConsoleError (''Error generating types: '' @ msg)])
               | Inr resolved \<Rightarrow>
                   (let wo = writeOutput L cfg (fst (snd (snd g))) (fst resolved);
                        uc = updateCache L cfg (fst (snd wo)) (fst resolved) (snd resolved);
                        pg = executePluginHook req (fst (snd g)) POST_GENERATION
                               (post_generation_context cfg (Some (fst resolved)) True (snd resolved));
                        fin = finally_block cfg (fst (snd pg)) (fst (snd uc))
                    in (0, fst fin,
                        ev0 @ snd (snd (snd g)) @ snd (snd wo) @ snd (snd uc) @ snd (snd pg)
                        @ logPerf cfg ''Type generation completed successfully'' @ snd fin)))
         else
           (let pg = executePluginHook req (fst (snd nr)) POST_GENERATION
                       (post_generation_context cfg None False None);
                fin = finally_block cfg (fst (snd pg)) w
            in (0, fst fin, ev0 @ logPerf cfg ''Using cached types'' @ snd (snd pg) @ snd fin)))"

text \<open>The child processes a run started, and the files it wrote, in order.\<close>

fun spawns :: "event list \<Rightarrow> (string \<times> string list) list" where
  "spawns [] = []"
| "spawns (Spawned executable args # ev) = (executable, args) # spawns ev"
| "spawns (e # ev) = spawns ev"

fun writes :: "event list \<Rightarrow> (path \<times> string) list" where
  "writes [] = []"
| "writes (WroteFile p t # ev) = (p, t) # writes ev"
| "writes (e # ev) = writes ev"


text \<open>
  Two worlds that differ at most in the clock and in what the file system holds at the
  paths \<open>P\<close>.
\<close>

definition same_but :: "path set \<Rightarrow> world \<Rightarrow> world \<Rightarrow> bool" where
  "same_but P w w' =
     ((\<forall>p. p \<notin> P \<longrightarrow> fs w' p = fs w p)
      \<and> process_env w' = process_env w
      \<and> version_probe w' = version_probe w
      \<and> interpreter_search w' = interpreter_search w
      \<and> search_processes w' = search_processes w
      \<and> run_generator w' = run_generator w
      \<and> write_error w' = write_error w
      \<and> configured_plugins w' = configured_plugins w)"

text \<open>
  The paths the cache check reads besides the cache file and the output file: the
  generator script, the compatibility shim and the candidate stub locations.
\<close>

definition read_paths :: "platform \<Rightarrow> Config \<Rightarrow> world \<Rightarrow> path set" where
  "read_paths L cfg w =
     {pythonScript cfg, versionCompatPath L cfg} \<union> set (potentialLocations L)
     \<union> (case envStubPath w of Some p \<Rightarrow> {p} | None \<Rightarrow> {})"

section \<open>A test harness\<close>

subsection \<open>Plugins\<close>

text \<open>
  A plugin that records its tag and the hook into the shared \<^verbatim>\<open>pluginData\<close> and
  returns the context; a plugin whose handler always throws; a plugin that returns the
  context with its logger removed; a plugin that returns it with \<^verbatim>\<open>tsOutput\<close> set to
  the empty string; a plugin that writes a text to \<^verbatim>\<open>tsOutput\<close> and then throws; a
  plugin that deletes the logger from the context and returns nothing. The module
  system resolves \<^verbatim>\<open>./throws.js\<close> to the second, \<^verbatim>\<open>./drops-logger.js\<close> to the
  third, \<^verbatim>\<open>./blanks-output.js\<close> to the fourth, \<^verbatim>\<open>./scribbles.js\<close> to the fifth,
  \<^verbatim>\<open>./deletes-logger.js\<close> to the sixth, and any other module to a recorder tagged
  with the module's name.
\<close>

definition recording_plugin :: "string \<Rightarrow> Plugin" where
  "recording_plugin tag =
     \<lparr>onHook = (\<lambda>hook ctx. (ctx\<lparr>pluginData := pluginData ctx @ [(tag, hook_text hook)]\<rparr>,
                            Returns (Some (ctx\<lparr>pluginData := pluginData ctx @ [(tag, hook_text hook)]\<rparr>)))),
      plugin_cleanup = None\<rparr>"

definition throwing_plugin :: "string \<Rightarrow> Plugin" where
  "throwing_plugin msg = \<lparr>onHook = (\<lambda>hook ctx. (ctx, Throws msg)), plugin_cleanup = None\<rparr>"

definition dropping_plugin :: Plugin where
  "dropping_plugin =
     \<lparr>onHook = (\<lambda>hook ctx. (ctx\<lparr>logger := None\<rparr>, Returns (Some (ctx\<lparr>logger := None\<rparr>)))),
      plugin_cleanup = None\<rparr>"

definition blanking_plugin :: Plugin where
  "blanking_plugin =
     \<lparr>onHook = (\<lambda>hook ctx. (ctx\<lparr>tsOutput := Some []\<rparr>, Returns (Some (ctx\<lparr>tsOutput := Some []\<rparr>)))),
      plugin_cleanup = None\<rparr>"

definition scribbling_plugin :: Plugin where
  "scribbling_plugin =
     \<lparr>onHook = (\<lambda>hook ctx. (ctx\<lparr>tsOutput := Some ''// partial''\<rparr>, Throws ''boom'')),
      plugin_cleanup = None\<rparr>"

definition logger_deleting_plugin :: Plugin where
  "logger_deleting_plugin =
     \<lparr>onHook = (\<lambda>hook ctx. (ctx\<lparr>logger := None\<rparr>, Returns None)), plugin_cleanup = None\<rparr>"

definition harness_loader :: loader where
  "harness_loader d =
     (if module_ref d = ''./throws.js'' then Inr (throwing_plugin ''boom'')
      else if module_ref d = ''./drops-logger.js'' then Inr dropping_plugin
      else if module_ref d = ''./blanks-output.js'' then Inr blanking_plugin
      else if module_ref d = ''./scribbles.js'' then Inr scribbling_plugin
      else if module_ref d = ''./deletes-logger.js'' then Inr logger_deleting_plugin
      else Inr (recording_plugin (module_ref d)))"

definition harness_config :: Config where
  "harness_config =
     \<lparr>pythonScript = ''/repo/src/python/generate_types.py'',
      outputFile = ''/repo/src/types/featuretools.ts'',
      cacheFile = ''/repo/.type-cache.json'',
      tempOutputFile = ''/tmp/featuretools-types-1.ts'',
      debugMode = False,
      pythonExecutable = ''python3'',
      forceRegeneration = False,
      useTS49Features = True,
      pythonMinVersion = ''3.6'',
      pythonMaxVersion = ''3.11'',
      pythonPreferredVersion = ''3.8'',
      pluginsEnabled = True\<rparr>"

definition bare_context :: PluginContext where
  "bare_context =
     \<lparr>config = harness_config, metadata_forceRegeneration = None, metadata_env = None,
      metadata_cache = None, metadata_other = [], tsOutput = None, hook_error = None,
      pluginData = [], logger = None\<rparr>"

definition plugin_def :: "string \<Rightarrow> string \<Rightarrow> int option \<Rightarrow> PluginDefinition" where
  "plugin_def nm module p = \<lparr>name = nm, version = ''1.0.0'', module_ref = module, priority = p, enabled = None\<rparr>"

subsection \<open>A platform and a world\<close>

text \<open>
  A stand-in platform: a toy checksum for MD5, a codec for the cache record that reads
  back what it writes, decimal numbers for \<^verbatim>\<open>Number\<close>, and POSIX-like paths.
\<close>

fun parse_digits :: "nat \<Rightarrow> string \<Rightarrow> nat option" where
  "parse_digits acc [] = Some acc"
| "parse_digits acc (c # cs) =
     (let n = (of_char c :: nat)
      in if 48 \<le> n \<and> n \<le> 57 then parse_digits (10 * acc + (n - 48)) cs else None)"

definition harness_Number :: "string \<Rightarrow> jsnum" where
  "harness_Number s = (case parse_digits 0 s of Some n \<Rightarrow> Num (int n) | None \<Rightarrow> NaN)"

definition harness_md5 :: "string \<Rightarrow> 128 word" where
  "harness_md5 s = of_nat (foldl (\<lambda>h c. h + of_char c) (length s) s)"

text \<open>
  The codec writes the six properties one after the other: \<^verbatim>\<open>!\<close> for an absent
  one, else \<^verbatim>\<open>=\<close>, each character behind a dot, and a semicolon; the time of
  generation is a sign and as many strokes as milliseconds.
\<close>

fun enc_str :: "string \<Rightarrow> string" where
  "enc_str [] = '';''"
| "enc_str (c # cs) = CHR ''.'' # c # enc_str cs"

fun dec_str :: "string \<Rightarrow> (string \<times> string) option" where
  "dec_str [] = None"
| "dec_str [c] = (if c = CHR '';'' then Some ([], []) else None)"
| "dec_str (c # d # rest) =
     (if c = CHR '';'' then Some ([], d # rest)
      else if c = CHR ''.'' then
        (case dec_str rest of Some found \<Rightarrow> Some (d # fst found, snd found) | None \<Rightarrow> None)
      else None)"

definition enc_opt :: "string option \<Rightarrow> string" where
  "enc_opt v = (case v of None \<Rightarrow> ''!'' | Some s \<Rightarrow> CHR ''='' # enc_str s)"

definition dec_opt :: "string \<Rightarrow> (string option \<times> string) option" where
  "dec_opt t =
     (case t of
        [] \<Rightarrow> None
      | c # rest \<Rightarrow>
          (if c = CHR ''!'' then Some (None, rest)
           else if c = CHR ''='' then
             (case dec_str rest of Some found \<Rightarrow> Some (Some (fst found), snd found) | None \<Rightarrow> None)
           else None))"

fun dec_fields :: "nat \<Rightarrow> string \<Rightarrow> string option list option" where
  "dec_fields 0 t = (if t = [] then Some [] else None)"
| "dec_fields (Suc n) t =
     (case dec_opt t of
        Some found \<Rightarrow> map_option (\<lambda>vs. fst found # vs) (dec_fields n (snd found))
      | None \<Rightarrow> None)"

definition int_str :: "int \<Rightarrow> string" where
  "int_str i = (if i < 0 then CHR ''-'' else CHR ''+'') # replicate (nat \<bar>i\<bar>) (CHR ''1'')"

definition str_int :: "string \<Rightarrow> int" where
  "str_int s = (case s of [] \<Rightarrow> 0 | c # r \<Rightarrow> if c = CHR ''-'' then - int (length r) else int (length r))"

definition harness_stringify :: "cacheData \<Rightarrow> string" where
  "harness_stringify c =
     concat (map enc_opt
       [map_option int_str (lastGenerated c), scriptHash c, outputHash c, stubFilesHash c,
        versionCompatHash c, pythonVersion c])"

definition harness_parse :: "string \<Rightarrow> string + cacheData" where
  "harness_parse t =
     (case dec_fields 6 t of
        Some [g, sh, oh, st, vc, pv] \<Rightarrow>
          Inr \<lparr>lastGenerated = map_option str_int g, scriptHash = sh, outputHash = oh,
               stubFilesHash = st, versionCompatHash = vc, pythonVersion = pv\<rparr>
      | other \<Rightarrow> Inl ''Unexpected token in JSON'')"

definition harness_dirname :: "path \<Rightarrow> path" where
  "harness_dirname p = rev (drop 1 (dropWhile (\<lambda>c. c \<noteq> CHR ''/'') (rev p)))"

definition harness_resolve :: "path \<Rightarrow> string \<Rightarrow> path" where
  "harness_resolve base rel =
     (if take 3 rel = ''../'' then harness_dirname base @ ''/'' @ drop 3 rel else base @ ''/'' @ rel)"

definition harness_join :: "path \<Rightarrow> string \<Rightarrow> path" where
  "harness_join d n = d @ ''/'' @ n"

definition harness_platform :: platform where
  "harness_platform =
     \<lparr>md5 = harness_md5,
      JSON_parse = harness_parse,
      JSON_stringify = harness_stringify,
      Number_of = harness_Number,
      path_join = harness_join,
      path_resolve = harness_resolve,
      path_dirname = harness_dirname,
      path_delimiter = '':'',
      script_dirname = ''/repo/scripts'',
      homedir = ''/home/dev''\<rparr>"

text \<open>
  A checkout with the generator script, one stub file under the project's stub
  directory, the directory of the output file, an interpreter that answers
  \<^verbatim>\<open>3.8.10\<close>, a generator that succeeds, no cache file and no plugins.
\<close>

definition harness_probe :: "string \<Rightarrow> spawn_outcome" where
  "harness_probe executable =
     (if executable = ''python3'' then Completed (Some 0) (''3.8.10'' @ [CHR 0x0A]) []
      else Completed None [] ''spawnSync ENOENT'')"

definition harness_fs :: "path \<rightharpoonup> node" where
  "harness_fs =
     [''/repo/src/python/generate_types.py'' \<mapsto> RegularFile (Inr ''print(1)'') 1000,
      ''/repo/src/types'' \<mapsto> Directory (Readable []) 1000,
      ''/repo/stubs'' \<mapsto>
         Directory (Readable [DirEntry ''featuretools'' (Readable [FileEntry ''entityset.pyi'' (Some 900)])]) 900]"

definition harness_world :: world where
  "harness_world =
     \<lparr>fs = harness_fs,
      process_env = Map.empty,
      version_probe = harness_probe,
      interpreter_search = [],
      search_processes = [],
      run_generator = (\<lambda>executable script env_given. Exited (Some 0) ''export interface EntitySet {}'' []),
      clock = 2000,
      write_error = Map.empty,
      configured_plugins = []\<rparr>"

text \<open>
  The cache record and the world a first run leaves in that checkout, looked at a second
  later.
\<close>

definition harness_record :: "string option \<Rightarrow> cacheData" where
  "harness_record pv =
     \<lparr>lastGenerated = Some 2000,
      scriptHash = Some (md5_hex harness_platform ''print(1)''),
      outputHash = Some (md5_hex harness_platform ''export interface EntitySet {}''),
      stubFilesHash = Some (md5_hex harness_platform ''/repo/stubs/featuretools/entityset.pyi:900''),
      versionCompatHash = Some [],
      pythonVersion = pv\<rparr>"

definition cached_fs :: "string option \<Rightarrow> path \<rightharpoonup> node" where
  "cached_fs pv =
     harness_fs
       (''/repo/src/types/featuretools.ts'' \<mapsto> RegularFile (Inr ''export interface EntitySet {}'') 2000,
        ''/repo/.type-cache.json'' \<mapsto> RegularFile (Inr (harness_stringify (harness_record pv))) 2000)"

definition cached_world :: world where
  "cached_world = harness_world\<lparr>fs := cached_fs (Some ''3.8.10''), clock := 3000\<rparr>"

text \<open>
  The same on a machine whose \<^verbatim>\<open>python3\<close> does not answer the version probe: the
  first run recorded no version.
\<close>

definition silent_cached_world :: world where
  "silent_cached_world =
     harness_world\<lparr>fs := cached_fs None, clock := 3000,
                   version_probe := (\<lambda>executable. Completed None [] ''spawnSync ENOENT'')\<rparr>"

text \<open>The checkout with a cache file that is not JSON, and with a plugin that blanks the output.\<close>

definition corrupt_cache_world :: world where
  "corrupt_cache_world =
     harness_world\<lparr>fs := harness_fs(''/repo/.type-cache.json'' \<mapsto> RegularFile (Inr ''{ not json'') 1500)\<rparr>"

definition blanking_world :: world where
  "blanking_world = harness_world\<lparr>configured_plugins := [plugin_def ''blank'' ''./blanks-output.js'' None]\<rparr>"

text \<open>The checkout with a second stub location named by \<^verbatim>\<open>TYPESHED_PATH\<close>.\<close>

definition typeshed_world :: world where
  "typeshed_world =
     harness_world\<lparr>fs := harness_fs(''/opt/typeshed'' \<mapsto> Directory (Readable []) 900),
                   process_env := [''TYPESHED_PATH'' \<mapsto> ''/opt/typeshed'']\<rparr>"

text \<open>The cached checkout after its stub file was touched.\<close>

definition touched_world :: world where
  "touched_world =
     cached_world\<lparr>fs := (cached_fs (Some ''3.8.10''))
       (''/repo/stubs'' \<mapsto>
          Directory (Readable [DirEntry ''featuretools'' (Readable [FileEntry ''entityset.pyi'' (Some 950)])]) 950)\<rparr>"

text \<open>
  The configuration of the next process: the name of the temporary file carries the
  time of the start.
\<close>

definition harness_config_again :: Config where
  "harness_config_again = harness_config\<lparr>tempOutputFile := ''/tmp/featuretools-types-2.ts''\<rparr>"

text \<open>The checkout without its stub directory: no stub file anywhere.\<close>

definition stubless_world :: world where
  "stubless_world = harness_world\<lparr>fs := harness_fs(''/repo/stubs'' := None)\<rparr>"

text \<open>
  The checkout with two plugins: one that writes to \<^verbatim>\<open>tsOutput\<close> and throws, on
  every hook, and after it a recorder; and the manager \<^verbatim>\<open>setupPlugins\<close> makes of them.
\<close>

definition scribbled_world :: world where
  "scribbled_world =
     harness_world\<lparr>configured_plugins :=
       [plugin_def ''bad'' ''./scribbles.js'' (Some 1), plugin_def ''good'' ''./records.js'' (Some 2)]\<rparr>"

definition scribbled_manager :: PluginManager where
  "scribbled_manager = fst (initialize harness_loader (new_PluginManager (configured_plugins scribbled_world)))"

text \<open>
  The checkout with an output file of an earlier day that cannot be written:
  \<^verbatim>\<open>fs.writeFileSync\<close> throws on its path. And the files a run leaves there.
\<close>

definition stale_fs :: "path \<rightharpoonup> node" where
  "stale_fs = harness_fs(''/repo/src/types/featuretools.ts'' \<mapsto> RegularFile (Inr ''// stale'') 500)"

definition unwritable_output_world :: world where
  "unwritable_output_world =
     harness_world
       \<lparr>fs := stale_fs,
        write_error := [''/repo/src/types/featuretools.ts'' \<mapsto> ''EACCES: permission denied, open'']\<rparr>"

definition left_stale_fs :: "path \<rightharpoonup> node" where
  "left_stale_fs = stale_fs(''/repo/.type-cache.json'' \<mapsto>
      RegularFile (Inr (harness_stringify (harness_record (Some ''3.8.10'')))) 2000)"

text \<open>
  A checkout with 101 stub files \<^verbatim>\<open>0.pyi\<close> to \<^verbatim>\<open>100.pyi\<close>, all modified at 900
  but the 51st, modified at \<open>t\<close>; its cache record holds the fingerprint of the first
  five and the last five files at 900.
\<close>

definition many_stubs :: "int \<Rightarrow> dir" where
  "many_stubs t =
     Readable (map (\<lambda>i. FileEntry (decimal (int i) @ ''.pyi'') (Some (if i = 50 then t else 900))) [0..<101])"

definition many_sample_input :: string where
  "many_sample_input =
     ''/repo/stubs/0.pyi:900|/repo/stubs/1.pyi:900|/repo/stubs/2.pyi:900|/repo/stubs/3.pyi:900|/repo/stubs/4.pyi:900|/repo/stubs/96.pyi:900|/repo/stubs/97.pyi:900|/repo/stubs/98.pyi:900|/repo/stubs/99.pyi:900|/repo/stubs/100.pyi:900''"

definition many_record :: cacheData where
  "many_record = (harness_record (Some ''3.8.10''))\<lparr>stubFilesHash := Some (md5_hex harness_platform many_sample_input)\<rparr>"

definition many_cached_world :: "int \<Rightarrow> world" where
  "many_cached_world t =
     harness_world
       \<lparr>fs := harness_fs
          (''/repo/stubs'' \<mapsto> Directory (many_stubs t) 900,
           ''/repo/src/types/featuretools.ts'' \<mapsto> RegularFile (Inr ''export interface EntitySet {}'') 2000,
           ''/repo/.type-cache.json'' \<mapsto> RegularFile (Inr (harness_stringify many_record)) 2000),
        clock := 3000\<rparr>"

section \<open>Properties of the plugin host\<close>

lemma fst_with_events [simp]: "fst (with_events ev r) = fst r"
  by (simp add: with_events_def)

lemma snd_with_events [simp]: "snd (with_events ev r) = ev @ snd r"
  by (simp add: with_events_def)

lemma invoked_names_append: "invoked_names (xs @ ys) = invoked_names xs @ invoked_names ys"
  by (induction xs rule: invoked_names.induct) auto

lemma invoked_contexts_append: "invoked_contexts (xs @ ys) = invoked_contexts xs @ invoked_contexts ys"
  by (induction xs rule: invoked_contexts.induct) auto

lemma run_plugins_append_fst:
  "fst (run_plugins h (xs @ ys) c) = fst (run_plugins h ys (fst (run_plugins h xs c)))"
  by (induction xs arbitrary: c) (auto split: hook_result.splits option.splits)

lemma run_plugins_append_snd:
  "snd (run_plugins h (xs @ ys) c) = snd (run_plugins h xs c) @ snd (run_plugins h ys (fst (run_plugins h xs c)))"
  by (induction xs arbitrary: c) (auto split: hook_result.splits option.splits)

lemma run_plugins_names: "invoked_names (snd (run_plugins h ps c)) = map fst ps"
  by (induction ps arbitrary: c) (auto split: hook_result.splits option.splits)

lemma run_plugins_logger_kept:
  "\<forall>entry \<in> set ps. \<forall>x. logger x \<noteq> None \<longrightarrow> logger (fst (onHook (snd entry) h x)) \<noteq> None \<Longrightarrow>
   logger c \<noteq> None \<Longrightarrow>
   logger (fst (run_plugins h ps c)) \<noteq> None
   \<and> list_all (\<lambda>x. logger x \<noteq> None) (invoked_contexts (snd (run_plugins h ps c)))"
proof (induction ps arbitrary: c)
  case Nil
  then show ?case by simp
next
  case (Cons entry ps)
  obtain nm p where e: "entry = (nm, p)" by (cases entry)
  have kept: "logger (fst (onHook p h c)) \<noteq> None" using Cons.prems e by simp
  have rest: "\<forall>entry \<in> set ps. \<forall>x. logger x \<noteq> None \<longrightarrow> logger (fst (onHook (snd entry) h x)) \<noteq> None"
    using Cons.prems by simp
  show ?case
  proof (cases "snd (onHook p h c)")
    case (Throws msg)
    with Cons.IH[OF rest kept] Cons.prems(2) e show ?thesis by simp
  next
    case (Returns yielded)
    show ?thesis
    proof (cases yielded)
      case None
      with Returns Cons.IH[OF rest kept] Cons.prems(2) e show ?thesis by simp
    next
      case (Some r)
      have "logger (if logger r = None then r\<lparr>logger := Some ManagerLogger\<rparr> else r) \<noteq> None" by simp
      from Cons.IH[OF rest this] Returns Some Cons.prems(2) e show ?thesis by simp
    qed
  qed
qed

lemma invoked_names_load_all: "invoked_names (snd (load_all req ds pm)) = []"
  by (induction ds arbitrary: pm) (auto split: sum.splits)

lemma invoked_contexts_load_all: "invoked_contexts (snd (load_all req ds pm)) = []"
  by (induction ds arbitrary: pm) (auto split: sum.splits)

lemma invoked_names_initialize: "invoked_names (snd (initialize req pm)) = []"
  by (simp add: initialize_def Let_def invoked_names_load_all)

lemma invoked_contexts_initialize: "invoked_contexts (snd (initialize req pm)) = []"
  by (simp add: initialize_def Let_def invoked_contexts_load_all)

lemma executeHook_parts:
  assumes "executeHook req pm hook ctx = (c, pm', ev)"
  shows "c = fst (run_plugins hook (plugins pm') (ctx\<lparr>logger := Some ManagerLogger\<rparr>))"
    and "invoked_names ev = map fst (plugins pm')"
    and "invoked_contexts ev = invoked_contexts (snd (run_plugins hook (plugins pm') (ctx\<lparr>logger := Some ManagerLogger\<rparr>)))"
    and "set (snd (run_plugins hook (plugins pm') (ctx\<lparr>logger := Some ManagerLogger\<rparr>))) \<subseteq> set ev"
  using assms
  by (auto simp: executeHook_def Let_def invoked_names_append invoked_contexts_append
      invoked_names_initialize invoked_contexts_initialize run_plugins_names split: if_splits)

lemma map_set_fresh: "k \<notin> fst ` set m \<Longrightarrow> map_set k v m = m @ [(k, v)]"
  by (induction m) auto

text \<open>
  With pairwise distinct names every \<^verbatim>\<open>set\<close> appends: the registry lists the
  instantiated definitions in the order the loop met them.
\<close>

lemma load_all_plugins:
  "distinct (map name ds) \<Longrightarrow> name ` set ds \<inter> fst ` set (plugins pm) = {} \<Longrightarrow>
   map (\<lambda>(n, p). (n, Inr p :: string + Plugin)) (plugins (fst (load_all req ds pm)))
     = map (\<lambda>(n, p). (n, Inr p)) (plugins pm) @ map (\<lambda>d. (name d, req d)) (filter (instantiated req) ds)"
proof (induction ds arbitrary: pm)
  case Nil
  then show ?case by simp
next
  case (Cons d ds)
  show ?case
  proof (cases "instantiated req d")
    case False
    then have "fst (load_all req (d # ds) pm) = fst (load_all req ds pm)"
      by (auto simp: instantiated_def loadPlugin_def split: sum.splits)
    with Cons False show ?thesis by auto
  next
    case True
    then obtain p where p: "req d = Inr p" and en: "enabled d \<noteq> Some False"
      by (auto simp: instantiated_def split: sum.splits)
    let ?pm = "pm\<lparr>plugins := map_set (name d) p (plugins pm),
                    pluginConfigs := map_set (name d) d (pluginConfigs pm)\<rparr>"
    have fresh: "name d \<notin> fst ` set (plugins pm)" using Cons.prems by auto
    have pl: "plugins ?pm = plugins pm @ [(name d, p)]" using fresh by (simp add: map_set_fresh)
    have step: "fst (load_all req (d # ds) pm) = fst (load_all req ds ?pm)"
      using p en by (simp add: loadPlugin_def)
    have disj: "name ` set ds \<inter> fst ` set (plugins ?pm) = {}"
      using Cons.prems by (auto simp: pl)
    have dist: "distinct (map name ds)" using Cons.prems by simp
    show ?thesis
      unfolding step using Cons.IH[OF dist disj] True p by (simp add: pl)
  qed
qed

lemma initialize_plugins:
  assumes "distinct (map name defs)"
  shows "map (\<lambda>(n, p). (n, Inr p :: string + Plugin)) (plugins (fst (initialize req (new_PluginManager defs))))
     = map (\<lambda>d. (name d, req d)) (filter (instantiated req) (sort_key priority_or_default defs))"
proof -
  have d: "distinct (map name (sort_key priority_or_default defs))"
    using assms by (metis distinct_map distinct_sort set_sort)
  show ?thesis
    using load_all_plugins[OF d, of "new_PluginManager defs" req]
    by (simp add: initialize_def new_PluginManager_def Let_def)
qed


text \<open>
  Claim C4 (plugin ordering), as the code has it: for definitions with pairwise distinct
  names, a hook run on a fresh manager calls the handlers of the instantiated
  definitions (those not disabled whose module loads), each registered under its
  definition's name, in ascending order of priority, a missing priority counting as 100
  and equal priorities keeping the order of the definitions.
\<close>

theorem plugin_order_by_priority:
  assumes "distinct (map name defs)"
      and "executeHook req (new_PluginManager defs) hook ctx = (c, pm', ev)"
      and "ds = filter (instantiated req) (sort_key priority_or_default defs)"
  shows "invoked_names ev = map name ds
       \<and> map (\<lambda>(n, p). (n, Inr p)) (plugins pm') = map (\<lambda>d. (name d, req d)) ds
       \<and> sorted (map priority_or_default ds)"
proof -
  have ni: "\<not> initialized (new_PluginManager defs)" by (simp add: new_PluginManager_def)
  have pm': "pm' = fst (initialize req (new_PluginManager defs))"
    using assms(2) ni by (auto simp: executeHook_def Let_def)
  have ev: "invoked_names ev = map fst (plugins pm')"
    by (rule executeHook_parts(2)[OF assms(2)])
  have pl: "map (\<lambda>(n, p). (n, Inr p :: string + Plugin)) (plugins pm') = map (\<lambda>d. (name d, req d)) ds"
    unfolding pm' assms(3) by (rule initialize_plugins[OF assms(1)])
  have "map fst (map (\<lambda>(n, p). (n, Inr p :: string + Plugin)) (plugins pm')) = map fst (map (\<lambda>d. (name d, req d)) ds)"
    using pl by simp
  then have names: "map fst (plugins pm') = map name ds"
    by (simp add: case_prod_unfold comp_def)
  have "sorted (map priority_or_default ds)"
    unfolding assms(3) by (simp add: sorted_filter)
  with ev names pl show ?thesis by simp
qed

text \<open>
  Witness: the harness of the spec, two plugins given with priorities 200 and 100; the
  handler of priority 100 is called first and the shared context shows it.
\<close>

theorem plugin_order_by_priority_witness:
  "distinct (map name [plugin_def ''late'' ''priority-200'' (Some 200), plugin_def ''early'' ''priority-100'' (Some 100)])
   \<and> invoked_names (snd (snd (executeHook harness_loader (new_PluginManager [plugin_def ''late'' ''priority-200'' (Some 200), plugin_def ''early'' ''priority-100'' (Some 100)]) POST_GENERATION bare_context))) = [''early'', ''late'']
   \<and> map fst (pluginData (fst (executeHook harness_loader (new_PluginManager [plugin_def ''late'' ''priority-200'' (Some 200), plugin_def ''early'' ''priority-100'' (Some 100)]) POST_GENERATION bare_context))) = [''priority-100'', ''priority-200'']"
  using plugin_order_by_priority
    [of "[plugin_def ''late'' ''priority-200'' (Some 200), plugin_def ''early'' ''priority-100'' (Some 100)]" harness_loader POST_GENERATION bare_context
        "fst (executeHook harness_loader (new_PluginManager [plugin_def ''late'' ''priority-200'' (Some 200), plugin_def ''early'' ''priority-100'' (Some 100)]) POST_GENERATION bare_context)"
        "fst (snd (executeHook harness_loader (new_PluginManager [plugin_def ''late'' ''priority-200'' (Some 200), plugin_def ''early'' ''priority-100'' (Some 100)]) POST_GENERATION bare_context))"
        "snd (snd (executeHook harness_loader (new_PluginManager [plugin_def ''late'' ''priority-200'' (Some 200), plugin_def ''early'' ''priority-100'' (Some 100)]) POST_GENERATION bare_context))"
        "filter (instantiated harness_loader) (sort_key priority_or_default [plugin_def ''late'' ''priority-200'' (Some 200), plugin_def ''early'' ''priority-100'' (Some 100)])"]
  by (simp add: executeHook_def initialize_def new_PluginManager_def plugin_def_def harness_loader_def
      recording_plugin_def throwing_plugin_def bare_context_def loadPlugin_def priority_or_default_def
      instantiated_def Let_def)

text \<open>
  Counterexample to C4 as stated: three enabled definitions of priorities 1, 2 and 3, the
  first and the third under one name. The registry keeps the name where it was first
  set and the plugin that was set last, so the handler of the priority-3 definition is
  called before the handler of the priority-2 definition.
\<close>

theorem plugin_order_counterexample:
  "map fst (pluginData (fst (executeHook harness_loader (new_PluginManager [plugin_def ''a'' ''priority-1'' (Some 1), plugin_def ''b'' ''priority-2'' (Some 2), plugin_def ''a'' ''priority-3'' (Some 3)]) POST_GENERATION bare_context)))
     = [''priority-3'', ''priority-2'']"
  by (simp add: executeHook_def initialize_def new_PluginManager_def plugin_def_def harness_loader_def
      recording_plugin_def throwing_plugin_def bare_context_def loadPlugin_def priority_or_default_def
      instantiated_def Let_def)


text \<open>
  Claim C9 (logger invariant) at a handler that deletes the logger from the context it
  is handed and returns nothing, registered before a handler that throws: the manager
  sets the logger once before the loop and again only on a truthy result, so the second
  handler is handed a context without a logger, and the caller is returned one.
\<close>

theorem executeHook_logger_lost:
  "logger (fst (executeHook harness_loader
      (new_PluginManager [plugin_def ''forgetful'' ''./deletes-logger.js'' (Some 1),
                          plugin_def ''next'' ''./throws.js'' (Some 2)])
      PRE_GENERATION bare_context)) = None
   \<and> invoked_names (snd (snd (executeHook harness_loader
      (new_PluginManager [plugin_def ''forgetful'' ''./deletes-logger.js'' (Some 1),
                          plugin_def ''next'' ''./throws.js'' (Some 2)])
      PRE_GENERATION bare_context))) = [''forgetful'', ''next'']
   \<and> map logger (invoked_contexts (snd (snd (executeHook harness_loader
      (new_PluginManager [plugin_def ''forgetful'' ''./deletes-logger.js'' (Some 1),
                          plugin_def ''next'' ''./throws.js'' (Some 2)])
      PRE_GENERATION bare_context)))) = [Some ManagerLogger, None]"
  by (simp add: executeHook_def initialize_def new_PluginManager_def plugin_def_def harness_loader_def
      logger_deleting_plugin_def throwing_plugin_def bare_context_def loadPlugin_def
      priority_or_default_def Let_def)

lemma quiet_run_plugins:
  "fst (run_plugins h (map (\<lambda>entry. (fst entry, quiet (snd entry))) ps) c) = fst (run_plugins h ps c)"
proof (induction ps arbitrary: c)
  case Nil
  then show ?case by simp
next
  case (Cons entry ps)
  obtain nm p where e: "entry = (nm, p)" by (cases entry)
  show ?case
  proof (cases "snd (onHook p h c)")
    case (Throws msg)
    with Cons.IH e show ?thesis by (simp add: quiet_def)
  next
    case (Returns yielded)
    with Cons.IH e show ?thesis by (cases yielded) (simp_all add: quiet_def)
  qed
qed

lemma map_set_map:
  "map_set k (f v) (map (\<lambda>entry. (fst entry, f (snd entry))) m)
     = map (\<lambda>entry. (fst entry, f (snd entry))) (map_set k v m)"
  by (induction m) auto

lemma quiet_manager_fields:
  "pluginDefs (quiet_manager pm) = pluginDefs pm"
  "pluginConfigs (quiet_manager pm) = pluginConfigs pm"
  "initialized (quiet_manager pm) = initialized pm"
  "plugins (quiet_manager pm) = map (\<lambda>entry. (fst entry, quiet (snd entry))) (plugins pm)"
  by (simp_all add: quiet_manager_def)

lemma quiet_load_all:
  "load_all (quiet_loader req) ds (quiet_manager pm)
     = (quiet_manager (fst (load_all req ds pm)), snd (load_all req ds pm))"
proof (induction ds arbitrary: pm)
  case Nil
  then show ?case by simp
next
  case (Cons d ds)
  show ?case
  proof (cases "enabled d = Some False")
    case True
    with Cons.IH[of pm] show ?thesis by (simp add: with_events_def)
  next
    case False
    show ?thesis
    proof (cases "req d")
      case (Inl msg)
      with False Cons.IH[of pm] show ?thesis
        by (simp add: loadPlugin_def quiet_loader_def with_events_def)
    next
      case (Inr p)
      let ?pm = "pm\<lparr>plugins := map_set (name d) p (plugins pm),
                      pluginConfigs := map_set (name d) d (pluginConfigs pm)\<rparr>"
      have lp: "loadPlugin (quiet_loader req) d = Inr (quiet p)" "loadPlugin req d = Inr p"
        using Inr by (simp_all add: loadPlugin_def quiet_loader_def)
      have q: "(quiet_manager pm)\<lparr>plugins := map_set (name d) (quiet p) (plugins (quiet_manager pm)),
                  pluginConfigs := map_set (name d) d (pluginConfigs (quiet_manager pm))\<rparr>
                = quiet_manager ?pm"
        by (simp add: quiet_manager_def map_set_map)
      have "load_all (quiet_loader req) (d # ds) (quiet_manager pm)
              = with_events [LogInfo (''Loaded plugin: '' @ name d @ '' v'' @ version d)]
                  (load_all (quiet_loader req) ds (quiet_manager ?pm))"
        using False by (simp add: lp q)
      moreover have "load_all req (d # ds) pm
              = with_events [LogInfo (''Loaded plugin: '' @ name d @ '' v'' @ version d)]
                  (load_all req ds ?pm)"
        using False by (simp add: lp)
      ultimately show ?thesis by (simp add: Cons.IH[of ?pm] with_events_def)
    qed
  qed
qed

lemma quiet_initialize:
  "initialize (quiet_loader req) (quiet_manager pm)
     = (quiet_manager (fst (initialize req pm)), snd (initialize req pm))"
  by (simp add: initialize_def Let_def quiet_load_all quiet_manager_fields)

lemma quiet_executeHook:
  "fst (executeHook (quiet_loader req) (quiet_manager pm) h c) = fst (executeHook req pm h c)"
  "fst (snd (executeHook (quiet_loader req) (quiet_manager pm) h c))
     = quiet_manager (fst (snd (executeHook req pm h c)))"
  by (simp_all add: executeHook_def Let_def quiet_initialize quiet_run_plugins quiet_manager_fields)

section \<open>Properties of the generator driver\<close>

lemma dec_str_enc_str: "dec_str (enc_str s @ rest) = Some (s, rest)"
proof (induction s)
  case Nil
  then show ?case by (cases rest) auto
next
  case (Cons c cs)
  then show ?case by simp
qed

lemma dec_opt_enc_opt: "dec_opt (enc_opt v @ rest) = Some (v, rest)"
  by (cases v) (auto simp: dec_opt_def enc_opt_def dec_str_enc_str)

lemma str_int_int_str: "str_int (int_str i) = i"
  by (simp add: str_int_def int_str_def)

lemma harness_roundtrip: "harness_parse (harness_stringify c) = Inr c"
proof -
  have "dec_fields 6 (harness_stringify c)
          = Some [map_option int_str (lastGenerated c), scriptHash c, outputHash c, stubFilesHash c,
                  versionCompatHash c, pythonVersion c]"
    unfolding harness_stringify_def
    by (simp add: eval_nat_numeral dec_opt_enc_opt dec_opt_enc_opt[of _ "[]", simplified])
  then show ?thesis
    by (simp add: harness_parse_def option.map_comp comp_def str_int_int_str option.map_ident)
qed

lemma and_then_Throw [simp]: "and_then (Throw e, ev) f = (Throw e, ev)"
  by (simp add: and_then_def)

lemma and_then_Return [simp]: "and_then (Return b, ev) f = (Return b, ev)"
  by (simp add: and_then_def)

lemma and_then_Continue [simp]: "and_then (Continue x, ev) f = with_events ev (f x)"
  by (simp add: and_then_def)

lemma or_throw_Inl [simp]: "or_throw (Inl e) = (Throw e, [])"
  by (simp add: or_throw_def)

lemma or_throw_Inr [simp]: "or_throw (Inr x) = (Continue x, [])"
  by (simp add: or_throw_def)

lemma hex_digest_nonempty [simp]: "hex_digest w \<noteq> []"
  by (simp add: hex_digest_def)

lemma md5_hex_nonempty [simp]: "md5_hex L s \<noteq> []"
  by (simp add: md5_hex_def)

lemma harness_config_fields [simp]:
  "pythonScript harness_config = ''/repo/src/python/generate_types.py''"
  "outputFile harness_config = ''/repo/src/types/featuretools.ts''"
  "cacheFile harness_config = ''/repo/.type-cache.json''"
  "tempOutputFile harness_config = ''/tmp/featuretools-types-1.ts''"
  "debugMode harness_config = False"
  "pythonExecutable harness_config = ''python3''"
  "forceRegeneration harness_config = False"
  "useTS49Features harness_config = True"
  "pythonMinVersion harness_config = ''3.6''"
  "pythonMaxVersion harness_config = ''3.11''"
  "pythonPreferredVersion harness_config = ''3.8''"
  "pluginsEnabled harness_config = True"
  by (simp_all add: harness_config_def)

lemma harness_platform_fields [simp]:
  "md5 harness_platform = harness_md5"
  "JSON_parse harness_platform = harness_parse"
  "JSON_stringify harness_platform = harness_stringify"
  "Number_of harness_platform = harness_Number"
  "path_join harness_platform = harness_join"
  "path_resolve harness_platform = harness_resolve"
  "path_dirname harness_platform = harness_dirname"
  "path_delimiter harness_platform = '':''"
  "script_dirname harness_platform = ''/repo/scripts''"
  "homedir harness_platform = ''/home/dev''"
  by (simp_all add: harness_platform_def)

lemma harness_world_fields [simp]:
  "fs harness_world = harness_fs"
  "process_env harness_world = Map.empty"
  "version_probe harness_world = harness_probe"
  "interpreter_search harness_world = []"
  "run_generator harness_world executable script env_given = Exited (Some 0) ''export interface EntitySet {}'' []"
  "clock harness_world = 2000"
  "write_error harness_world = Map.empty"
  "configured_plugins harness_world = []"
  by (simp_all add: harness_world_def)

lemma cached_world_fields [simp]:
  "fs cached_world = cached_fs (Some ''3.8.10'')"
  "process_env cached_world = Map.empty"
  "version_probe cached_world = harness_probe"
  "interpreter_search cached_world = []"
  "clock cached_world = 3000"
  "write_error cached_world = Map.empty"
  "configured_plugins cached_world = []"
  by (simp_all add: cached_world_def)

lemma logPerf_quiet [simp]: "logPerf harness_config m = []"
  by (simp add: logPerf_def)

lemma harness_paths [simp]:
  "potentialLocations harness_platform = [''/repo/stubs'', ''/repo/node_modules/@types'', ''/home/dev/.local/lib/python3/stubs'']"
  "versionCompatPath harness_platform harness_config = ''/repo/src/python/version_compat.py''"
  "harness_dirname ''/repo/src/types/featuretools.ts'' = ''/repo/src/types''"
  by (simp_all add: potentialLocations_def versionCompatPath_def harness_resolve_def harness_dirname_def)

lemma cached_fs_lookups [simp]:
  "cached_fs pv ''/repo/.type-cache.json'' = Some (RegularFile (Inr (harness_stringify (harness_record pv))) 2000)"
  "cached_fs pv ''/repo/src/types/featuretools.ts'' = Some (RegularFile (Inr ''export interface EntitySet {}'') 2000)"
  "cached_fs pv ''/repo/src/python/generate_types.py'' = Some (RegularFile (Inr ''print(1)'') 1000)"
  "cached_fs pv ''/repo/src/python/version_compat.py'' = None"
  "cached_fs pv ''/repo/stubs'' = Some (Directory (Readable [DirEntry ''featuretools'' (Readable [FileEntry ''entityset.pyi'' (Some 900)])]) 900)"
  "cached_fs pv ''/repo/node_modules/@types'' = None"
  "cached_fs pv ''/home/dev/.local/lib/python3/stubs'' = None"
  "cached_fs pv ''/tmp/featuretools-types-1.ts'' = None"
  by (simp_all add: cached_fs_def harness_fs_def)

lemma harness_probe_version:
  "version_probe w = harness_probe \<Longrightarrow>
   checkPythonVersion harness_platform harness_config w
     = (Some \<lparr>major = Num 3, minor = Num 8, micro = Num 10, raw = ''3.8.10'', isSupported = True\<rparr>,
        [Spawned ''python3'' version_args])"
  by (simp add: checkPythonVersion_def harness_probe_def trim_def is_space_def
      version_components_def harness_Number_def in_supported_range_def js_nth_def
      with_events_def Let_def)

lemma cached_stub_dirs:
  "findStubDirectories harness_platform harness_config cached_world = ([''/repo/stubs''], [])"
  by (simp add: findStubDirectories_def existsSync_def envStubPath_def or_else_def truthy_opt_def Let_def)

lemma cached_collect_nr:
  "collect_nr harness_platform cached_world [''/repo/stubs'']
     = ([(''/repo/stubs/featuretools/entityset.pyi'', Some 900)], [])"
  by (simp add: readdirSync_def endsWith_def harness_join_def Let_def)

lemma harness_hash_input:
  "stubsHashInput (samplesToCheck [(''/repo/stubs/featuretools/entityset.pyi'', Some 900)])
     = Inr ''/repo/stubs/featuretools/entityset.pyi:900''"
  by (simp add: stubsHashInput_def samplesToCheck_def decimal_def decimal_nat.simps digit_char_def)

lemma cached_checks:
  "cache_checks harness_platform harness_config cached_world
     = (Continue (harness_record (Some ''3.8.10'')), [Spawned ''python3'' version_args])"
  by (simp add: cache_checks_def existsSync_def readFileSync_def harness_roundtrip
      script_mtime_checks_def statSync_mtime_def generated_before_def
      python_version_check_def output_file_check_def stub_files_check_def content_hash_checks_def
      cached_stub_dirs cached_collect_nr harness_hash_input harness_probe_version
      truthy_opt_def truthy_def with_events_def harness_record_def Let_def readdirSync_def endsWith_def
      harness_join_def)

lemma cached_needsRegeneration:
  "needsRegeneration harness_platform harness_loader harness_config None cached_world
     = (False, None, [Spawned ''python3'' version_args])"
  by (simp add: needsRegeneration_def cached_checks executePluginHook_def pre_generation_context_def
      script_context_def)

lemma cached_main:
  "main harness_platform harness_loader harness_config cached_world
     = (0, cached_world, [Spawned ''python3'' version_args])"
  by (simp add: main_def setupPlugins_def cached_needsRegeneration executePluginHook_def
      finally_block_def cleanup_def)

lemma and_then_Continue_iff:
  "fst (and_then m f) = Continue y \<longleftrightarrow> (\<exists>x. fst m = Continue x \<and> fst (f x) = Continue y)"
  by (cases m; cases "fst m") (auto simp: and_then_def)

lemma and_then_events:
  "fst m = Continue x \<Longrightarrow> snd (and_then m f) = snd m @ snd (f x)"
  by (simp add: and_then_def)

lemma spawns_append [simp]: "spawns (xs @ ys) = spawns xs @ spawns ys"
  by (induction xs rule: spawns.induct) auto

lemma spawns_logPerf [simp]: "spawns (logPerf cfg m) = []"
  by (simp add: logPerf_def)

lemma spawns_run_plugins [simp]: "spawns (snd (run_plugins h ps c)) = []"
  by (induction ps arbitrary: c) (auto split: hook_result.splits option.splits)

lemma spawns_load_all [simp]: "spawns (snd (load_all req ds pm)) = []"
  by (induction ds arbitrary: pm) (auto split: sum.splits)

lemma spawns_initialize [simp]: "spawns (snd (initialize req pm)) = []"
  by (simp add: initialize_def Let_def)

lemma spawns_executeHook [simp]: "spawns (snd (snd (executeHook req pm h c))) = []"
  by (simp add: executeHook_def Let_def)

lemma spawns_executePluginHook [simp]: "spawns (snd (snd (executePluginHook req pmo h c))) = []"
  by (simp add: executePluginHook_def Let_def split: option.splits)

lemma spawns_setupPlugins [simp]: "spawns (snd (setupPlugins req cfg w)) = []"
  by (simp add: setupPlugins_def Let_def)

lemma spawns_concat_logPerf [simp]: "spawns (concat (map (\<lambda>d. logPerf cfg (f d)) xs)) = []"
  by (induction xs) auto

lemma spawns_findStubDirectories [simp]: "spawns (snd (findStubDirectories L cfg w)) = []"
  by (simp add: findStubDirectories_def Let_def split: option.splits)

lemma spawns_collect_nr [simp]: "spawns (snd (collect_nr L w ds)) = []"
  by (induction ds) (auto simp: Let_def split: option.splits)

lemma spawns_cleanup_plugins [simp]: "spawns (cleanup_plugins ps) = []"
  by (induction ps) (auto split: option.splits)

lemma spawns_finally_block [simp]: "spawns (snd (finally_block cfg pmo w)) = []"
  by (auto simp: finally_block_def cleanup_def PluginManager_cleanup_def Let_def split: option.splits node.splits)

lemma spawns_checkPythonVersion [simp]:
  "spawns (snd (checkPythonVersion L cfg w)) = [(pythonExecutable cfg, version_args)]"
  by (auto simp: checkPythonVersion_def Let_def split: spawn_outcome.splits)

lemma script_mtime_checks_spawns [simp]: "spawns (snd (script_mtime_checks L cfg w cached)) = []"
  by (auto simp: script_mtime_checks_def and_then_def or_throw_def split: sum.splits flow.splits)

lemma output_file_check_spawns [simp]: "spawns (snd (output_file_check cfg w)) = []"
  by (auto simp: output_file_check_def)

lemma stub_files_check_spawns [simp]: "spawns (snd (stub_files_check L cfg w cached)) = []"
  by (auto simp: stub_files_check_def and_then_def or_throw_def Let_def split: sum.splits flow.splits)

lemma content_hash_checks_spawns [simp]: "spawns (snd (content_hash_checks L cfg w cached)) = []"
  by (auto simp: content_hash_checks_def and_then_def or_throw_def split: sum.splits flow.splits)

lemma python_version_check_spawns:
  "fst (python_version_check L cfg w cached) = Continue u \<Longrightarrow>
   spawns (snd (python_version_check L cfg w cached))
     = (if truthy_opt (pythonVersion cached) then [(pythonExecutable cfg, version_args)] else [])"
  by (auto simp: python_version_check_def truthy_opt_def Let_def split: option.splits if_splits)

lemma cache_checks_Continue:
  assumes "fst (cache_checks L cfg w) = Continue cached"
  shows "\<exists>t. readFileSync w (cacheFile cfg) = Inr t \<and> JSON_parse L t = Inr cached"
    and "spawns (snd (cache_checks L cfg w))
           = (if truthy_opt (pythonVersion cached) then [(pythonExecutable cfg, version_args)] else [])"
    and "fst (script_mtime_checks L cfg w cached) = Continue ()"
    and "fst (python_version_check L cfg w cached) = Continue ()"
    and "fst (output_file_check cfg w) = Continue ()"
    and "fst (stub_files_check L cfg w cached) = Continue ()"
    and "fst (content_hash_checks L cfg w cached) = Continue ()"
proof -
  from assms have ex: "existsSync w (cacheFile cfg)"
    by (auto simp: cache_checks_def split: if_splits)
  from assms ex obtain t where t: "readFileSync w (cacheFile cfg) = Inr t"
    by (cases "readFileSync w (cacheFile cfg)") (auto simp: cache_checks_def)
  from assms ex t obtain c where c: "JSON_parse L t = Inr c"
    by (cases "JSON_parse L t") (auto simp: cache_checks_def)
  let ?rest = "and_then (script_mtime_checks L cfg w c) (\<lambda>u1.
        and_then (python_version_check L cfg w c) (\<lambda>u2.
        and_then (output_file_check cfg w) (\<lambda>u3.
        and_then (stub_files_check L cfg w c) (\<lambda>u4.
        and_then (content_hash_checks L cfg w c) (\<lambda>u5.
          (Continue c, []))))))"
  have cc: "cache_checks L cfg w = ?rest"
    using ex t c by (simp add: cache_checks_def with_events_def)
  from assms have r: "fst ?rest = Continue cached" by (simp add: cc)
  then have s1: "fst (script_mtime_checks L cfg w c) = Continue ()"
    and s2: "fst (python_version_check L cfg w c) = Continue ()"
    and s3: "fst (output_file_check cfg w) = Continue ()"
    and s4: "fst (stub_files_check L cfg w c) = Continue ()"
    and s5: "fst (content_hash_checks L cfg w c) = Continue ()"
    and eq: "c = cached"
    by (auto simp: and_then_Continue_iff)
  show "\<exists>t. readFileSync w (cacheFile cfg) = Inr t \<and> JSON_parse L t = Inr cached"
    using t c eq by auto
  show "spawns (snd (cache_checks L cfg w))
           = (if truthy_opt (pythonVersion cached) then [(pythonExecutable cfg, version_args)] else [])"
    unfolding cc using s1 s2 s3 s4 s5 eq python_version_check_spawns[OF s2]
    by (simp add: and_then_events)
  show "fst (script_mtime_checks L cfg w cached) = Continue ()" using s1 eq by simp
  show "fst (python_version_check L cfg w cached) = Continue ()" using s2 eq by simp
  show "fst (output_file_check cfg w) = Continue ()" using s3 by simp
  show "fst (stub_files_check L cfg w cached) = Continue ()" using s4 eq by simp
  show "fst (content_hash_checks L cfg w cached) = Continue ()" using s5 eq by simp
qed

lemma and_then_Return_iff:
  "fst (and_then m f) = Return b \<longleftrightarrow>
     fst m = Return b \<or> (\<exists>x. fst m = Continue x \<and> fst (f x) = Return b)"
  by (cases m; cases "fst m") (auto simp: and_then_def)

lemma or_throw_not_Return [simp]: "fst (or_throw r) \<noteq> Return b"
  by (cases r) auto

lemma script_mtime_checks_Return: "fst (script_mtime_checks L cfg w cached) = Return b \<Longrightarrow> b"
  by (auto simp: script_mtime_checks_def and_then_Return_iff split: if_splits)

lemma python_version_check_Return: "fst (python_version_check L cfg w cached) = Return b \<Longrightarrow> b"
  by (auto simp: python_version_check_def Let_def split: if_splits option.splits)

lemma output_file_check_Return: "fst (output_file_check cfg w) = Return b \<Longrightarrow> b"
  by (auto simp: output_file_check_def split: if_splits)

lemma stub_files_check_Return: "fst (stub_files_check L cfg w cached) = Return b \<Longrightarrow> b"
  by (auto simp: stub_files_check_def Let_def and_then_Return_iff split: if_splits)

lemma content_hash_checks_Return: "fst (content_hash_checks L cfg w cached) = Return b \<Longrightarrow> b"
  by (auto simp: content_hash_checks_def and_then_Return_iff split: if_splits)

lemma cache_checks_Return: "fst (cache_checks L cfg w) = Return b \<Longrightarrow> b"
  by (auto simp: cache_checks_def and_then_Return_iff split: if_splits
      dest: script_mtime_checks_Return python_version_check_Return output_file_check_Return
        stub_files_check_Return content_hash_checks_Return)

lemma needsRegeneration_False:
  assumes "\<not> fst (needsRegeneration L req cfg pmo w)"
  shows "\<not> forceRegeneration cfg"
    and "\<exists>cached. fst (cache_checks L cfg w) = Continue cached
          \<and> metadata_forceRegeneration (fst (executePluginHook req pmo PRE_GENERATION (pre_generation_context cfg cached))) \<noteq> Some True
          \<and> spawns (snd (snd (needsRegeneration L req cfg pmo w))) = spawns (snd (cache_checks L cfg w))"
  using assms
  by (auto simp: needsRegeneration_def Let_def split: if_splits flow.splits dest: cache_checks_Return)

text \<open>
  Claim C5 (no-op runs and the runtime), as the code has it. On a run whose cache check
  concludes that no regeneration is needed, the script never starts the interpreter on
  the generator script; the only process it starts is the version probe of
  \<^verbatim>\<open>checkPythonVersion\<close>, once, and exactly when the cache record holds a non-empty
  \<^verbatim>\<open>pythonVersion\<close>. (What a plugin's own code starts is not the script's.)
\<close>

theorem cache_hit_spawns_only_version_probe:
  assumes "\<not> fst (needsRegeneration L req cfg (fst (setupPlugins req cfg w)) w)"
  shows "\<exists>t cached. readFileSync w (cacheFile cfg) = Inr t \<and> JSON_parse L t = Inr cached
          \<and> spawns (snd (snd (main L req cfg w)))
                = (if truthy_opt (pythonVersion cached) then [(pythonExecutable cfg, version_args)] else [])
          \<and> (\<forall>executable. (executable, [pythonScript cfg]) \<notin> set (spawns (snd (snd (main L req cfg w)))))"
proof -
  from needsRegeneration_False(2)[OF assms] obtain cached where
    cc: "fst (cache_checks L cfg w) = Continue cached"
    and sp: "spawns (snd (snd (needsRegeneration L req cfg (fst (setupPlugins req cfg w)) w))) = spawns (snd (cache_checks L cfg w))"
    by blast
  from cache_checks_Continue(1)[OF cc] obtain t where
    t: "readFileSync w (cacheFile cfg) = Inr t" "JSON_parse L t = Inr cached" by blast
  have m: "spawns (snd (snd (main L req cfg w)))
            = (if truthy_opt (pythonVersion cached) then [(pythonExecutable cfg, version_args)] else [])"
    using assms sp cache_checks_Continue(2)[OF cc]
    by (simp add: main_def Let_def)
  have "\<forall>executable. (executable, [pythonScript cfg]) \<notin> set (spawns (snd (snd (main L req cfg w))))"
    unfolding m by (simp add: version_args_def)
  with t m show ?thesis by blast
qed

lemma silent_cached_world_fields [simp]:
  "fs silent_cached_world = cached_fs None"
  "process_env silent_cached_world = Map.empty"
  "interpreter_search silent_cached_world = []"
  "clock silent_cached_world = 3000"
  "write_error silent_cached_world = Map.empty"
  "configured_plugins silent_cached_world = []"
  by (simp_all add: silent_cached_world_def)

lemma silent_stub_dirs:
  "findStubDirectories harness_platform harness_config silent_cached_world = ([''/repo/stubs''], [])"
  by (simp add: findStubDirectories_def existsSync_def envStubPath_def or_else_def truthy_opt_def Let_def)

lemma silent_checks:
  "cache_checks harness_platform harness_config silent_cached_world
     = (Continue (harness_record None), [])"
  by (simp add: cache_checks_def existsSync_def readFileSync_def harness_roundtrip
      script_mtime_checks_def statSync_mtime_def generated_before_def
      python_version_check_def output_file_check_def stub_files_check_def content_hash_checks_def
      silent_stub_dirs harness_hash_input
      truthy_opt_def truthy_def with_events_def harness_record_def Let_def readdirSync_def endsWith_def
      harness_join_def)

lemma silent_needsRegeneration:
  "needsRegeneration harness_platform harness_loader harness_config None silent_cached_world
     = (False, None, [])"
  by (simp add: needsRegeneration_def silent_checks executePluginHook_def pre_generation_context_def
      script_context_def)

text \<open>
  Witness: the cached checkout whose record holds no interpreter version; the second run
  starts no process at all.
\<close>

theorem cache_hit_spawns_only_version_probe_witness:
  "\<not> fst (needsRegeneration harness_platform harness_loader harness_config None silent_cached_world)
   \<and> spawns (snd (snd (main harness_platform harness_loader harness_config silent_cached_world))) = []"
proof -
  have sp: "fst (setupPlugins harness_loader harness_config silent_cached_world) = None"
    by (simp add: setupPlugins_def)
  have nr: "\<not> fst (needsRegeneration harness_platform harness_loader harness_config
                (fst (setupPlugins harness_loader harness_config silent_cached_world)) silent_cached_world)"
    by (simp add: sp silent_needsRegeneration)
  from cache_hit_spawns_only_version_probe[OF nr] obtain t cached where
    t: "readFileSync silent_cached_world (cacheFile harness_config) = Inr t"
    and c: "JSON_parse harness_platform t = Inr cached"
    and s: "spawns (snd (snd (main harness_platform harness_loader harness_config silent_cached_world)))
              = (if truthy_opt (pythonVersion cached) then [(pythonExecutable harness_config, version_args)] else [])"
    by blast
  from t have "t = harness_stringify (harness_record None)" by (simp add: readFileSync_def)
  with c have "cached = harness_record None" by (simp add: harness_roundtrip)
  with s have "spawns (snd (snd (main harness_platform harness_loader harness_config silent_cached_world))) = []"
    by (simp add: harness_record_def truthy_opt_def)
  with nr sp show ?thesis by simp
qed

text \<open>
  Counterexample to C5 as stated: the cached checkout after an ordinary first run. The
  cache check concludes that nothing is to be regenerated, and the run has started
  \<^verbatim>\<open>python3\<close> for the version probe.
\<close>

theorem cache_hit_spawns_interpreter_counterexample:
  "\<not> fst (needsRegeneration harness_platform harness_loader harness_config None cached_world)
   \<and> spawns (snd (snd (main harness_platform harness_loader harness_config cached_world)))
       = [(''python3'', version_args)]"
  by (simp add: cached_needsRegeneration cached_main)

text \<open>
  Claim C6 (stub directory resolution order), as the code has it: the well-known
  locations that exist come first, in the order project stubs, installed
  \<^verbatim>\<open>@types\<close>, user stubs, and the directory named by the environment comes last. For
  every environment whose \<^verbatim>\<open>TYPESHED_PATH\<close> names an existing path, that path is
  the last element of the list; the project's stub directory, when it exists, is the
  first.
\<close>

theorem findStubDirectories_env_last:
  assumes "process_env w ''TYPESHED_PATH'' = Some p" and "p \<noteq> []" and "existsSync w p"
  shows "fst (findStubDirectories L cfg w) = filter (existsSync w) (potentialLocations L) @ [p]
       \<and> last (fst (findStubDirectories L cfg w)) = p
       \<and> (existsSync w (path_resolve L (script_dirname L) ''../stubs'')
            \<longrightarrow> hd (fst (findStubDirectories L cfg w)) = path_resolve L (script_dirname L) ''../stubs'')"
  using assms
  by (simp add: findStubDirectories_def envStubPath_def or_else_def truthy_opt_def truthy_def
      potentialLocations_def Let_def)

text \<open>
  Witness: the checkout with the project's stub directory and \<^verbatim>\<open>TYPESHED_PATH\<close>
  naming \<^verbatim>\<open>/opt/typeshed\<close>.
\<close>

theorem findStubDirectories_env_last_witness:
  "fst (findStubDirectories harness_platform harness_config typeshed_world) = [''/repo/stubs'', ''/opt/typeshed'']"
  using findStubDirectories_env_last[of typeshed_world "''/opt/typeshed''" harness_platform harness_config]
  by (simp add: typeshed_world_def harness_fs_def existsSync_def)

text \<open>
  Counterexample to C6 as stated: in that environment the path of the environment
  variable exists, and the first element of the list is the project's stub directory.
\<close>

theorem findStubDirectories_env_first_counterexample:
  "process_env typeshed_world ''TYPESHED_PATH'' = Some ''/opt/typeshed''
   \<and> existsSync typeshed_world ''/opt/typeshed''
   \<and> hd (fst (findStubDirectories harness_platform harness_config typeshed_world)) = ''/repo/stubs''"
  by (simp add: typeshed_world_def harness_fs_def existsSync_def findStubDirectories_def envStubPath_def
      or_else_def truthy_opt_def truthy_def Let_def)

text \<open>
  Claim C8 (cache corruption is never fatal). When the cache file is missing, cannot be
  read, or holds text that \<^verbatim>\<open>JSON.parse\<close> rejects, \<^verbatim>\<open>needsRegeneration\<close> returns
  \<^verbatim>\<open>true\<close>, in all three cases alike and without running a plugin hook; the error
  ends in the function's \<^verbatim>\<open>catch\<close>.
\<close>

theorem corrupt_cache_regenerates:
  assumes "fs w (cacheFile cfg) = None
         \<or> (\<exists>e. readFileSync w (cacheFile cfg) = Inl e)
         \<or> (\<exists>t e. readFileSync w (cacheFile cfg) = Inr t \<and> JSON_parse L t = Inl e)"
  shows "fst (needsRegeneration L req cfg pluginManager w) = True
       \<and> fst (snd (needsRegeneration L req cfg pluginManager w)) = pluginManager
       \<and> invoked_names (snd (snd (needsRegeneration L req cfg pluginManager w))) = []"
  using assms
  by (auto simp: needsRegeneration_def cache_checks_def existsSync_def Let_def logPerf_def with_events_def)

text \<open>Witness: the checkout with a cache file whose text is not JSON.\<close>

theorem corrupt_cache_regenerates_witness:
  "readFileSync corrupt_cache_world (cacheFile harness_config) = Inr ''{ not json''
   \<and> JSON_parse harness_platform ''{ not json'' = Inl ''Unexpected token in JSON''
   \<and> fst (needsRegeneration harness_platform harness_loader harness_config None corrupt_cache_world) = True"
proof -
  have r: "readFileSync corrupt_cache_world (cacheFile harness_config) = Inr ''{ not json''"
    by (simp add: readFileSync_def corrupt_cache_world_def)
  have p: "JSON_parse harness_platform ''{ not json'' = Inl ''Unexpected token in JSON''"
    by (simp add: harness_parse_def dec_opt_def eval_nat_numeral)
  from r p have "fs corrupt_cache_world (cacheFile harness_config) = None
         \<or> (\<exists>e. readFileSync corrupt_cache_world (cacheFile harness_config) = Inl e)
         \<or> (\<exists>t e. readFileSync corrupt_cache_world (cacheFile harness_config) = Inr t
                \<and> JSON_parse harness_platform t = Inl e)"
    by blast
  from corrupt_cache_regenerates[OF this, of harness_loader None] r p show ?thesis by simp
qed




text \<open>
  Claim C10 (plugins cannot blank the output). Let the temporary file open, let the
  generator process end with exit code 0 having written \<open>out\<close>, and let
  \<open>postContext\<close> be what the post-conversion hook, run by the manager as the
  pre-conversion hook left it, makes of the context that carries \<open>out\<close>. Then
  \<^verbatim>\<open>generateTypes\<close> resolves, and it resolves with \<^verbatim>\<open>postContext.tsOutput\<close> only
  when that is a non-empty string: with a \<^verbatim>\<open>tsOutput\<close> that is absent or the empty
  string it resolves with \<open>out\<close>, the text the generator wrote. (The hook of the
  script never rejects, so the \<^verbatim>\<open>catch\<close> that resolves with the same text is not
  reached.)
\<close>

theorem output_not_blanked:
  assumes "writeFileSync w (tempOutputFile cfg) [] = Inr w1"
      and "run_generator w (fst (fst (findBestPythonExecutable L cfg w))) (pythonScript cfg)
             (child_env L req cfg pluginManager w) = Exited (Some 0) out errorData"
      and "pv = version_text (snd (fst (findBestPythonExecutable L cfg w)))"
      and "postContext = fst (executePluginHook req (fst (snd (pre_conversion L req cfg pluginManager w)))
                                POST_CONVERSION (post_conversion_context cfg out errorData pv))"
  shows "fst (generateTypes L req cfg pluginManager w)
           = Inr (case tsOutput postContext of
                    Some replaced \<Rightarrow> if replaced = [] then out else replaced
                  | None \<Rightarrow> out,
                  pv)
       \<and> (tsOutput postContext = None \<or> tsOutput postContext = Some []
            \<longrightarrow> fst (generateTypes L req cfg pluginManager w) = Inr (out, pv))
       \<and> (\<forall>final. fst (generateTypes L req cfg pluginManager w) = Inr (final, pv) \<and> final \<noteq> out
            \<longrightarrow> final \<noteq> [] \<and> tsOutput postContext = Some final)"
proof -
  let ?w2 = "w1\<lparr>fs := (fs w1)(tempOutputFile cfg \<mapsto> RegularFile (Inr out) (clock w1))\<rparr>"
  have r: "readFileSync ?w2 (tempOutputFile cfg) = Inr out" by (simp add: readFileSync_def)
  have c: "fst (on_close req cfg (fst (snd (pre_conversion L req cfg pluginManager w))) ?w2 pv (Some 0) errorData)
             = Inr (resolve_output out (Inr postContext), pv)"
    using r assms(4) by (simp add: on_close_def Let_def post_conversion_def)
  have g: "fst (generateTypes L req cfg pluginManager w) = Inr (resolve_output out (Inr postContext), pv)"
    using assms(1,2) c unfolding assms(3)
    by (simp add: generateTypes_def on_process_end_def Let_def)
  have e: "resolve_output out (Inr postContext)
             = (case tsOutput postContext of
                  Some replaced \<Rightarrow> if replaced = [] then out else replaced
                | None \<Rightarrow> out)"
    by (simp add: resolve_output_def truthy_def split: option.splits)
  show ?thesis unfolding g e by (auto split: option.splits)
qed

lemma blanking_world_fields [simp]:
  "fs blanking_world = harness_fs"
  "process_env blanking_world = Map.empty"
  "version_probe blanking_world = harness_probe"
  "interpreter_search blanking_world = []"
  "run_generator blanking_world executable script env_given = Exited (Some 0) ''export interface EntitySet {}'' []"
  "clock blanking_world = 2000"
  "write_error blanking_world = Map.empty"
  "configured_plugins blanking_world = [plugin_def ''blank'' ''./blanks-output.js'' None]"
  by (simp_all add: blanking_world_def)

text \<open>
  Witness: the checkout with a plugin that sets \<^verbatim>\<open>tsOutput\<close> to the empty string on
  every hook. The post-conversion hook leaves the empty string, and
  \<^verbatim>\<open>generateTypes\<close> resolves with the text the generator wrote.
\<close>

theorem output_not_blanked_witness:
  "tsOutput (fst (executePluginHook harness_loader
       (fst (snd (pre_conversion harness_platform harness_loader harness_config
                    (fst (setupPlugins harness_loader harness_config blanking_world)) blanking_world)))
       POST_CONVERSION
       (post_conversion_context harness_config ''export interface EntitySet {}'' [] (Some ''3.8.10'')))) = Some []
   \<and> fst (generateTypes harness_platform harness_loader harness_config
            (fst (setupPlugins harness_loader harness_config blanking_world)) blanking_world)
       = Inr (''export interface EntitySet {}'', Some ''3.8.10'')"
proof -
  let ?pm = "fst (setupPlugins harness_loader harness_config blanking_world)"
  let ?post = "fst (executePluginHook harness_loader
       (fst (snd (pre_conversion harness_platform harness_loader harness_config ?pm blanking_world)))
       POST_CONVERSION
       (post_conversion_context harness_config ''export interface EntitySet {}'' [] (Some ''3.8.10'')))"
  have t: "tsOutput ?post = Some []"
    by (simp add: pre_conversion_def setupPlugins_def initialize_def new_PluginManager_def plugin_def_def
        priority_or_default_def loadPlugin_def harness_loader_def blanking_plugin_def executePluginHook_def
        executeHook_def Let_def)
  have o: "writeFileSync blanking_world (tempOutputFile harness_config) []
             = Inr (blanking_world\<lparr>fs := harness_fs(''/tmp/featuretools-types-1.ts'' \<mapsto> RegularFile (Inr []) 2000)\<rparr>)"
    by (simp add: writeFileSync_def harness_fs_def)
  have v: "Some ''3.8.10'' = version_text (snd (fst (findBestPythonExecutable harness_platform harness_config blanking_world)))"
    by (simp add: findBestPythonExecutable_def harness_probe_version version_text_def)
  from output_not_blanked[OF o _ v refl, of harness_loader ?pm "''export interface EntitySet {}''" "[]"] t
  show ?thesis by simp
qed



lemma touched_world_fields [simp]:
  "fs touched_world = (cached_fs (Some ''3.8.10''))
       (''/repo/stubs'' \<mapsto>
          Directory (Readable [DirEntry ''featuretools'' (Readable [FileEntry ''entityset.pyi'' (Some 950)])]) 950)"
  "process_env touched_world = Map.empty"
  "version_probe touched_world = harness_probe"
  by (simp_all add: touched_world_def)



lemma endsWith_pyi [simp]: "endsWith (s @ ''.pyi'') ''.pyi''"
  by (simp add: endsWith_def)



lemma many_cached_world_fields [simp]:
  "fs (many_cached_world t) = harness_fs
          (''/repo/stubs'' \<mapsto> Directory (many_stubs t) 900,
           ''/repo/src/types/featuretools.ts'' \<mapsto> RegularFile (Inr ''export interface EntitySet {}'') 2000,
           ''/repo/.type-cache.json'' \<mapsto> RegularFile (Inr (harness_stringify many_record)) 2000)"
  "process_env (many_cached_world t) = Map.empty"
  "version_probe (many_cached_world t) = harness_probe"
  "clock (many_cached_world t) = 3000"
  by (simp_all add: many_cached_world_def)









subsection \<open>What a run writes, and what it leaves\<close>

lemma writes_append [simp]: "writes (xs @ ys) = writes xs @ writes ys"
  by (induction xs rule: writes.induct) auto

lemma writes_logPerf [simp]: "writes (logPerf cfg m) = []"
  by (simp add: logPerf_def)

lemma writes_run_plugins [simp]: "writes (snd (run_plugins h ps c)) = []"
  by (induction ps arbitrary: c) (auto split: hook_result.splits option.splits)

lemma writes_load_all [simp]: "writes (snd (load_all req ds pm)) = []"
  by (induction ds arbitrary: pm) (auto split: sum.splits)

lemma writes_initialize [simp]: "writes (snd (initialize req pm)) = []"
  by (simp add: initialize_def Let_def)

lemma writes_executeHook [simp]: "writes (snd (snd (executeHook req pm h c))) = []"
  by (simp add: executeHook_def Let_def)

lemma writes_executePluginHook [simp]: "writes (snd (snd (executePluginHook req pmo h c))) = []"
  by (simp add: executePluginHook_def Let_def split: option.splits)

lemma writes_setupPlugins [simp]: "writes (snd (setupPlugins req cfg w)) = []"
  by (simp add: setupPlugins_def Let_def)

lemma writes_concat_logPerf [simp]: "writes (concat (map (\<lambda>d. logPerf cfg (f d)) xs)) = []"
  by (induction xs) auto

lemma writes_findStubDirectories [simp]: "writes (snd (findStubDirectories L cfg w)) = []"
  by (simp add: findStubDirectories_def Let_def split: option.splits)

lemma writes_collect_nr [simp]: "writes (snd (collect_nr L w ds)) = []"
  by (induction ds) (auto simp: Let_def split: option.splits)

lemma writes_findStubFiles_uc [simp]:
  "writes (snd (findStubFiles_uc L p d)) = []"
  "writes (snd (findStubFiles_uc_entries L p es)) = []"
  by (induction L p d and L p es rule: findStubFiles_uc_findStubFiles_uc_entries.induct)
     (auto simp: Let_def)

lemma writes_collect_uc [simp]: "writes (snd (collect_uc L w ds)) = []"
  by (induction ds) (auto simp: Let_def)

lemma writes_cleanup_plugins [simp]: "writes (cleanup_plugins ps) = []"
  by (induction ps) (auto split: option.splits)

lemma writes_finally_block [simp]: "writes (snd (finally_block cfg pmo w)) = []"
  by (auto simp: finally_block_def cleanup_def PluginManager_cleanup_def Let_def split: option.splits node.splits)

lemma writes_checkPythonVersion [simp]: "writes (snd (checkPythonVersion L cfg w)) = []"
  by (auto simp: checkPythonVersion_def Let_def split: spawn_outcome.splits)

lemma writes_started [simp]: "writes (map (\<lambda>started. Spawned (fst started) (snd started)) xs) = []"
  by (induction xs) auto

lemma writes_findBest [simp]: "writes (snd (findBestPythonExecutable L cfg w)) = []"
  by (auto simp: findBestPythonExecutable_def Let_def split: option.splits list.splits)

lemma writes_and_then:
  "writes (snd (and_then m f)) = writes (snd m) @ (case fst m of Continue x \<Rightarrow> writes (snd (f x)) | _ \<Rightarrow> [])"
  by (cases m; cases "fst m") (auto simp: and_then_def)

lemma writes_or_throw [simp]: "writes (snd (or_throw r)) = []"
  by (cases r) auto

lemma writes_script_mtime_checks [simp]: "writes (snd (script_mtime_checks L cfg w cached)) = []"
  by (auto simp: script_mtime_checks_def writes_and_then split: flow.splits)

lemma writes_python_version_check [simp]: "writes (snd (python_version_check L cfg w cached)) = []"
  by (auto simp: python_version_check_def Let_def split: option.splits)

lemma writes_output_file_check [simp]: "writes (snd (output_file_check cfg w)) = []"
  by (auto simp: output_file_check_def)

lemma writes_stub_files_check [simp]: "writes (snd (stub_files_check L cfg w cached)) = []"
  by (auto simp: stub_files_check_def Let_def writes_and_then split: flow.splits)

lemma writes_content_hash_checks [simp]: "writes (snd (content_hash_checks L cfg w cached)) = []"
  by (auto simp: content_hash_checks_def writes_and_then split: flow.splits)

lemma writes_cache_checks [simp]: "writes (snd (cache_checks L cfg w)) = []"
  by (auto simp: cache_checks_def writes_and_then split: flow.splits)

lemma writes_needsRegeneration [simp]: "writes (snd (snd (needsRegeneration L req cfg pmo w))) = []"
  by (auto simp: needsRegeneration_def Let_def split: flow.splits)

lemma writes_post_conversion [simp]: "writes (snd (snd (post_conversion req cfg pmo out err pv))) = []"
  by (simp add: post_conversion_def Let_def)

lemma writes_on_close [simp]: "writes (snd (snd (on_close req cfg pm1 w pv code errorData))) = []"
  by (cases "readFileSync w (tempOutputFile cfg)") (simp_all add: on_close_def Let_def)

lemma writes_on_process_end [simp]: "writes (snd (snd (snd (on_process_end req cfg pm1 w1 pv ended)))) = []"
  by (cases ended) (simp_all add: on_process_end_def Let_def)

lemma writes_pre_conversion [simp]: "writes (snd (snd (pre_conversion L req cfg pmo w))) = []"
  by (simp add: pre_conversion_def)

lemma writes_generateTypes [simp]: "writes (snd (snd (snd (generateTypes L req cfg pmo w)))) = []"
  by (cases "writeFileSync w (tempOutputFile cfg) []") (simp_all add: generateTypes_def Let_def split: option.splits)

lemma writes_writeOutput:
  "writes (snd (snd (writeOutput L cfg w output)))
     = (if fst (writeOutput L cfg w output) then [(outputFile cfg, output)] else [])"
  by (auto simp: writeOutput_def Let_def split: sum.splits)

lemma writes_stub_fingerprint [simp]: "writes (snd (stub_fingerprint L cfg w)) = []"
  by (auto simp: stub_fingerprint_def Let_def writes_and_then split: flow.splits)


lemma same_but_refl [simp]: "same_but P w w"
  by (simp add: same_but_def)



lemma same_but_clock [simp]: "same_but P w (w'\<lparr>clock := t\<rparr>) = same_but P w w'"
  by (simp add: same_but_def)

lemma same_but_fs_upd: "same_but {p} w (w\<lparr>fs := (fs w)(p := x)\<rparr>)"
  by (simp add: same_but_def)

lemma writeFileSync_Inr:
  "writeFileSync w p t = Inr w' \<Longrightarrow> w' = w\<lparr>fs := (fs w)(p \<mapsto> RegularFile (Inr t) (clock w))\<rparr>"
  by (auto simp: writeFileSync_def split: option.splits node.splits)









lemma stub_fingerprint_not_Return [simp]: "fst (stub_fingerprint L cfg w) \<noteq> Return b"
  by (auto simp: stub_fingerprint_def Let_def and_then_Return_iff)

lemma updateCache_cases:
  "(fst (updateCache L cfg w output pv) \<and>
      (\<exists>sc vh sh.
           readFileSync w (pythonScript cfg) = Inr sc
         \<and> (if existsSync w (versionCompatPath L cfg)
              then (\<exists>vc. readFileSync w (versionCompatPath L cfg) = Inr vc \<and> vh = md5_hex L vc)
              else vh = [])
         \<and> fst (stub_fingerprint L cfg w) = Continue sh
         \<and> fst (snd (updateCache L cfg w output pv))
             = w\<lparr>fs := (fs w)(cacheFile cfg \<mapsto>
                   RegularFile (Inr (JSON_stringify L
                      \<lparr>lastGenerated = Some (clock w), scriptHash = Some (md5_hex L sc),
                       outputHash = Some (md5_hex L output), stubFilesHash = Some sh,
                       versionCompatHash = Some vh, pythonVersion = pv\<rparr>)) (clock w))\<rparr>
         \<and> writes (snd (snd (updateCache L cfg w output pv)))
             = [(cacheFile cfg, JSON_stringify L
                      \<lparr>lastGenerated = Some (clock w), scriptHash = Some (md5_hex L sc),
                       outputHash = Some (md5_hex L output), stubFilesHash = Some sh,
                       versionCompatHash = Some vh, pythonVersion = pv\<rparr>)]))
   \<or> (\<not> fst (updateCache L cfg w output pv)
       \<and> fst (snd (updateCache L cfg w output pv)) = w
       \<and> writes (snd (snd (updateCache L cfg w output pv))) = [])"
proof (cases "readFileSync w (pythonScript cfg)")
  case (Inl e)
  then show ?thesis by (simp add: updateCache_def Let_def)
next
  case sc: (Inr sc)
  define vstep where "vstep = (if existsSync w (versionCompatPath L cfg)
                         then and_then (or_throw (readFileSync w (versionCompatPath L cfg)))
                                (\<lambda>versionCompatContent. (Continue (md5_hex L versionCompatContent), []))
                         else (Continue [], []))"
  have vev: "snd vstep = []"
    by (cases "readFileSync w (versionCompatPath L cfg)") (auto simp: vstep_def)
  show ?thesis
  proof (cases "fst vstep")
    case (Return b)
    then show ?thesis
      by (cases "readFileSync w (versionCompatPath L cfg)") (auto simp: vstep_def split: if_splits)
  next
    case (Throw e)
    with sc vev show ?thesis
      unfolding vstep_def by (simp add: updateCache_def Let_def and_then_def)
  next
    case vh: (Continue vh)
    have vfact: "(if existsSync w (versionCompatPath L cfg)
              then (\<exists>vc. readFileSync w (versionCompatPath L cfg) = Inr vc \<and> vh = md5_hex L vc)
              else vh = [])"
      using vh by (cases "readFileSync w (versionCompatPath L cfg)") (auto simp: vstep_def split: if_splits)
    show ?thesis
    proof (cases "fst (stub_fingerprint L cfg w)")
      case (Return b)
      then show ?thesis by simp
    next
      case (Throw e)
      with sc vh vev show ?thesis
        unfolding vstep_def by (simp add: updateCache_def Let_def and_then_def)
    next
      case sh: (Continue sh)
      let ?txt = "JSON_stringify L
                      \<lparr>lastGenerated = Some (clock w), scriptHash = Some (md5_hex L sc),
                       outputHash = Some (md5_hex L output), stubFilesHash = Some sh,
                       versionCompatHash = Some vh, pythonVersion = pv\<rparr>"
      show ?thesis
      proof (cases "writeFileSync w (cacheFile cfg) ?txt")
        case (Inl e)
        with sc vh sh vev show ?thesis
          unfolding vstep_def by (simp add: updateCache_def Let_def and_then_def)
      next
        case (Inr w')
        have "fst (updateCache L cfg w output pv)
            \<and> fst (snd (updateCache L cfg w output pv)) = w'
            \<and> writes (snd (snd (updateCache L cfg w output pv))) = [(cacheFile cfg, ?txt)]"
          using sc vh sh Inr vev unfolding vstep_def
          by (simp add: updateCache_def Let_def and_then_def)
        with writeFileSync_Inr[OF Inr] sc vfact sh show ?thesis by auto
      qed
    qed
  qed
qed

subsection \<open>Two consecutive runs\<close>


lemma same_but_envStubPath: "same_but D w w' \<Longrightarrow> envStubPath w' = envStubPath w"
  by (simp add: same_but_def envStubPath_def)

lemma same_but_read_paths: "same_but D w w' \<Longrightarrow> read_paths L cfg w' = read_paths L cfg w"
  by (simp add: read_paths_def same_but_envStubPath)





lemma same_but_checkPythonVersion:
  "same_but D w w' \<Longrightarrow> checkPythonVersion L cfg w' = checkPythonVersion L cfg w"
  by (simp add: checkPythonVersion_def same_but_def)

lemma same_but_findBestPythonExecutable:
  "same_but D w w' \<Longrightarrow> findBestPythonExecutable L cfg w' = findBestPythonExecutable L cfg w"
proof -
  assume a: "same_but D w w'"
  then have i: "interpreter_search w' = interpreter_search w" "search_processes w' = search_processes w"
    by (simp_all add: same_but_def)
  show ?thesis
    unfolding findBestPythonExecutable_def same_but_checkPythonVersion[OF a] i ..
qed
























subsection \<open>Two runs of the test harness\<close>


lemma harness_fs_lookups [simp]:
  "harness_fs ''/repo/.type-cache.json'' = None"
  "harness_fs ''/repo/src/types/featuretools.ts'' = None"
  "harness_fs ''/repo/src/types'' = Some (Directory (Readable []) 1000)"
  "harness_fs ''/repo/src/python/generate_types.py'' = Some (RegularFile (Inr ''print(1)'') 1000)"
  "harness_fs ''/repo/src/python/version_compat.py'' = None"
  "harness_fs ''/repo/stubs'' = Some (Directory (Readable [DirEntry ''featuretools'' (Readable [FileEntry ''entityset.pyi'' (Some 900)])]) 900)"
  "harness_fs ''/repo/node_modules/@types'' = None"
  "harness_fs ''/home/dev/.local/lib/python3/stubs'' = None"
  "harness_fs ''/tmp/featuretools-types-1.ts'' = None"
  by (simp_all add: harness_fs_def)

lemma stubless_world_fields [simp]:
  "fs stubless_world = harness_fs(''/repo/stubs'' := None)"
  "process_env stubless_world = Map.empty"
  "version_probe stubless_world = harness_probe"
  "interpreter_search stubless_world = []"
  "run_generator stubless_world executable script env_given = Exited (Some 0) ''export interface EntitySet {}'' []"
  "clock stubless_world = 2000"
  "write_error stubless_world = Map.empty"
  "configured_plugins stubless_world = []"
  by (simp_all add: stubless_world_def)


















text \<open>
  Whatever the run, \<^verbatim>\<open>fs.writeFileSync\<close> goes through at most once for the output
  file and at most once, after it, for the cache file, there with the JSON text of a
  whole record.
\<close>

lemma run_writes_each_file_at_most_once:
  "\<exists>out rec. writes (snd (snd (main L req cfg w)))
      \<in> {[], [(outputFile cfg, out)], [(cacheFile cfg, JSON_stringify L rec)],
          [(outputFile cfg, out), (cacheFile cfg, JSON_stringify L rec)]}"
proof (cases "fst (needsRegeneration L req cfg (fst (setupPlugins req cfg w)) w)")
  case False
  then show ?thesis by (simp add: main_def Let_def)
next
  case True
  define pm where "pm = fst (snd (needsRegeneration L req cfg (fst (setupPlugins req cfg w)) w))"
  show ?thesis
  proof (cases "fst (generateTypes L req cfg pm w)")
    case (Inl msg)
    with True show ?thesis unfolding pm_def by (simp add: main_def Let_def)
  next
    case (Inr resolved)
    define wg where "wg = fst (snd (snd (generateTypes L req cfg pm w)))"
    define wo where "wo = fst (snd (writeOutput L cfg wg (fst resolved)))"
    have m: "writes (snd (snd (main L req cfg w)))
         = writes (snd (snd (writeOutput L cfg wg (fst resolved))))
           @ writes (snd (snd (updateCache L cfg wo (fst resolved) (snd resolved))))"
      using True Inr unfolding pm_def wg_def wo_def by (simp add: main_def Let_def)
    from updateCache_cases[of L cfg wo "fst resolved" "snd resolved"]
    obtain rec where "writes (snd (snd (updateCache L cfg wo (fst resolved) (snd resolved))))
                 \<in> {[], [(cacheFile cfg, JSON_stringify L rec)]}"
      by auto
    then show ?thesis
      unfolding m writes_writeOutput
      by (intro exI[of _ "fst resolved"] exI[of _ rec]) auto
  qed
qed

subsection \<open>The child processes of a run\<close>

lemma spawns_started [simp]:
  "spawns (map (\<lambda>started. Spawned (fst started) (snd started)) xs) = xs"
  by (induction xs) auto

lemma spawns_on_close [simp]: "spawns (snd (snd (on_close req cfg pm1 w pv code errorData))) = []"
  by (cases "readFileSync w (tempOutputFile cfg)") (simp_all add: on_close_def post_conversion_def Let_def)

lemma spawns_on_process_end [simp]: "spawns (snd (snd (snd (on_process_end req cfg pm1 w1 pv ended)))) = []"
  by (cases ended) (simp_all add: on_process_end_def Let_def)

lemma spawns_pre_conversion [simp]: "spawns (snd (snd (pre_conversion L req cfg pmo w))) = []"
  by (simp add: pre_conversion_def)

lemma spawns_generateTypes:
  "spawns (snd (snd (snd (generateTypes L req cfg pmo w))))
     = spawns (snd (findBestPythonExecutable L cfg w))
       @ (case writeFileSync w (tempOutputFile cfg) [] of
            Inl e \<Rightarrow> []
          | Inr w1 \<Rightarrow> [(fst (fst (findBestPythonExecutable L cfg w)), [pythonScript cfg])])"
  by (cases "writeFileSync w (tempOutputFile cfg) []")
     (simp_all add: generateTypes_def Let_def split: option.splits)

lemma spawns_writeOutput [simp]: "spawns (snd (snd (writeOutput L cfg w out))) = []"
  by (auto simp: writeOutput_def Let_def split: sum.splits)

lemma spawns_and_then:
  "spawns (snd (and_then m f)) = spawns (snd m) @ (case fst m of Continue x \<Rightarrow> spawns (snd (f x)) | _ \<Rightarrow> [])"
  by (cases m; cases "fst m") (auto simp: and_then_def)

lemma spawns_or_throw [simp]: "spawns (snd (or_throw r)) = []"
  by (cases r) auto

lemma spawns_findStubFiles_uc [simp]:
  "spawns (snd (findStubFiles_uc L p d)) = []"
  "spawns (snd (findStubFiles_uc_entries L p es)) = []"
  by (induction L p d and L p es rule: findStubFiles_uc_findStubFiles_uc_entries.induct)
     (auto simp: Let_def)

lemma spawns_collect_uc [simp]: "spawns (snd (collect_uc L w ds)) = []"
  by (induction ds) (auto simp: Let_def)

lemma spawns_stub_fingerprint [simp]: "spawns (snd (stub_fingerprint L cfg w)) = []"
  by (auto simp: stub_fingerprint_def Let_def spawns_and_then split: flow.splits)

lemma spawns_updateCache [simp]: "spawns (snd (snd (updateCache L cfg w out pv))) = []"
  using updateCache_cases[of L cfg w out pv]
  by (cases "readFileSync w (pythonScript cfg)")
     (auto simp: updateCache_def Let_def spawns_and_then split: flow.splits sum.splits if_splits)

subsection \<open>A handler that throws, and the run\<close>

lemma quiet_new_PluginManager: "quiet_manager (new_PluginManager defs) = new_PluginManager defs"
  by (simp add: quiet_manager_def new_PluginManager_def)

lemma quiet_executePluginHook:
  "fst (executePluginHook (quiet_loader req) (map_option quiet_manager pmo) h c)
     = fst (executePluginHook req pmo h c)"
  "fst (snd (executePluginHook (quiet_loader req) (map_option quiet_manager pmo) h c))
     = map_option quiet_manager (fst (snd (executePluginHook req pmo h c)))"
  by (cases pmo; simp add: executePluginHook_def Let_def quiet_executeHook)+

lemma quiet_setupPlugins:
  "fst (setupPlugins (quiet_loader req) cfg w) = map_option quiet_manager (fst (setupPlugins req cfg w))"
  using quiet_initialize[of req "new_PluginManager (configured_plugins w)"]
  by (simp add: setupPlugins_def Let_def quiet_new_PluginManager)

lemma quiet_needsRegeneration:
  "fst (needsRegeneration L (quiet_loader req) cfg (map_option quiet_manager pmo) w)
     = fst (needsRegeneration L req cfg pmo w)"
  "fst (snd (needsRegeneration L (quiet_loader req) cfg (map_option quiet_manager pmo) w))
     = map_option quiet_manager (fst (snd (needsRegeneration L req cfg pmo w)))"
  "spawns (snd (snd (needsRegeneration L (quiet_loader req) cfg (map_option quiet_manager pmo) w)))
     = spawns (snd (snd (needsRegeneration L req cfg pmo w)))"
  by (cases "fst (cache_checks L cfg w)"; simp add: needsRegeneration_def Let_def quiet_executePluginHook)+

lemma quiet_pre_conversion:
  "fst (pre_conversion L (quiet_loader req) cfg (map_option quiet_manager pmo) w)
     = fst (pre_conversion L req cfg pmo w)"
  "fst (snd (pre_conversion L (quiet_loader req) cfg (map_option quiet_manager pmo) w))
     = map_option quiet_manager (fst (snd (pre_conversion L req cfg pmo w)))"
  by (simp_all add: pre_conversion_def quiet_executePluginHook)

lemma quiet_child_env:
  "child_env L (quiet_loader req) cfg (map_option quiet_manager pmo) w = child_env L req cfg pmo w"
  by (simp add: child_env_def quiet_pre_conversion)

lemma quiet_on_close:
  "fst (on_close (quiet_loader req) cfg (map_option quiet_manager pmo) w pv code errorData)
     = fst (on_close req cfg pmo w pv code errorData)"
  "fst (snd (on_close (quiet_loader req) cfg (map_option quiet_manager pmo) w pv code errorData))
     = map_option quiet_manager (fst (snd (on_close req cfg pmo w pv code errorData)))"
  by (cases "readFileSync w (tempOutputFile cfg)";
      simp add: on_close_def post_conversion_def Let_def quiet_executePluginHook)+

lemma quiet_on_process_end:
  "fst (on_process_end (quiet_loader req) cfg (map_option quiet_manager pmo) w pv ended)
     = fst (on_process_end req cfg pmo w pv ended)"
  "fst (snd (on_process_end (quiet_loader req) cfg (map_option quiet_manager pmo) w pv ended))
     = map_option quiet_manager (fst (snd (on_process_end req cfg pmo w pv ended)))"
  "fst (snd (snd (on_process_end (quiet_loader req) cfg (map_option quiet_manager pmo) w pv ended)))
     = fst (snd (snd (on_process_end req cfg pmo w pv ended)))"
  by (cases ended; simp add: on_process_end_def Let_def quiet_executePluginHook quiet_on_close)+

lemma quiet_generateTypes:
  "fst (generateTypes L (quiet_loader req) cfg (map_option quiet_manager pmo) w)
     = fst (generateTypes L req cfg pmo w)"
  "fst (snd (generateTypes L (quiet_loader req) cfg (map_option quiet_manager pmo) w))
     = map_option quiet_manager (fst (snd (generateTypes L req cfg pmo w)))"
  "fst (snd (snd (generateTypes L (quiet_loader req) cfg (map_option quiet_manager pmo) w)))
     = fst (snd (snd (generateTypes L req cfg pmo w)))"
  by (cases "writeFileSync w (tempOutputFile cfg) []";
      simp add: generateTypes_def Let_def quiet_pre_conversion quiet_child_env quiet_on_process_end)+

lemma quiet_finally_block:
  "fst (finally_block cfg (map_option quiet_manager pmo) w) = fst (finally_block cfg pmo w)"
  by (simp add: finally_block_def Let_def)

lemma quiet_main:
  "fst (main L (quiet_loader req) cfg w) = fst (main L req cfg w)"
  "fst (snd (main L (quiet_loader req) cfg w)) = fst (snd (main L req cfg w))"
  "writes (snd (snd (main L (quiet_loader req) cfg w))) = writes (snd (snd (main L req cfg w)))"
  "spawns (snd (snd (main L (quiet_loader req) cfg w))) = spawns (snd (snd (main L req cfg w)))"
proof -
  let ?pm = "fst (setupPlugins req cfg w)"
  let ?nr = "needsRegeneration L req cfg ?pm w"
  let ?g = "generateTypes L req cfg (fst (snd ?nr)) w"
  note q = quiet_setupPlugins quiet_needsRegeneration quiet_generateTypes quiet_executePluginHook
    quiet_finally_block
  show "fst (main L (quiet_loader req) cfg w) = fst (main L req cfg w)"
    by (cases "fst ?g") (simp_all add: main_def Let_def q)
  show "fst (snd (main L (quiet_loader req) cfg w)) = fst (snd (main L req cfg w))"
    by (cases "fst ?g") (simp_all add: main_def Let_def q)
  show "writes (snd (snd (main L (quiet_loader req) cfg w))) = writes (snd (snd (main L req cfg w)))"
    by (cases "fst ?g") (simp_all add: main_def Let_def q)
  show "spawns (snd (snd (main L (quiet_loader req) cfg w))) = spawns (snd (snd (main L req cfg w)))"
    by (cases "fst ?g") (simp_all add: main_def Let_def q spawns_generateTypes)
qed

lemma scribbled_world_fields [simp]:
  "fs scribbled_world = harness_fs"
  "process_env scribbled_world = Map.empty"
  "version_probe scribbled_world = harness_probe"
  "interpreter_search scribbled_world = []"
  "search_processes scribbled_world = []"
  "run_generator scribbled_world executable script env_given = Exited (Some 0) ''export interface EntitySet {}'' []"
  "clock scribbled_world = 2000"
  "write_error scribbled_world = Map.empty"
  "configured_plugins scribbled_world
     = [plugin_def ''bad'' ''./scribbles.js'' (Some 1), plugin_def ''good'' ''./records.js'' (Some 2)]"
  by (simp_all add: scribbled_world_def harness_world_def)

lemma scribbled_setup:
  "fst (setupPlugins harness_loader harness_config scribbled_world) = Some scribbled_manager"
  by (simp add: setupPlugins_def scribbled_manager_def Let_def)

lemma scribbled_manager_fields:
  "plugins scribbled_manager = [(''bad'', scribbling_plugin), (''good'', recording_plugin ''./records.js'')]"
  "initialized scribbled_manager"
  by (simp_all add: scribbled_manager_def initialize_def new_PluginManager_def plugin_def_def
        priority_or_default_def loadPlugin_def harness_loader_def Let_def)

lemma scribbled_hook:
  "fst (executePluginHook harness_loader (Some scribbled_manager) hook ctx)
     = ctx\<lparr>logger := Some ManagerLogger, tsOutput := Some ''// partial'',
            pluginData := pluginData ctx @ [(''./records.js'', hook_text hook)]\<rparr>"
  "fst (snd (executePluginHook harness_loader (Some scribbled_manager) hook ctx)) = Some scribbled_manager"
  by (simp_all add: executePluginHook_def executeHook_def initialize_def scribbled_manager_fields Let_def
      scribbling_plugin_def recording_plugin_def)

lemma scribbled_needsRegeneration:
  "fst (needsRegeneration harness_platform harness_loader harness_config (Some scribbled_manager) scribbled_world)"
  "fst (snd (needsRegeneration harness_platform harness_loader harness_config (Some scribbled_manager) scribbled_world))
     = Some scribbled_manager"
  by (simp_all add: needsRegeneration_def cache_checks_def existsSync_def)

lemma scribbled_findBest:
  "findBestPythonExecutable harness_platform harness_config scribbled_world
     = ((''python3'', Some \<lparr>major = Num 3, minor = Num 8, micro = Num 10, raw = ''3.8.10'', isSupported = True\<rparr>),
        [Spawned ''python3'' version_args])"
  by (simp add: findBestPythonExecutable_def harness_probe_version)

lemma scribbled_generateTypes:
  "fst (generateTypes harness_platform harness_loader harness_config (Some scribbled_manager) scribbled_world)
     = Inr (''// partial'', Some ''3.8.10'')"
  by (simp add: generateTypes_def scribbled_findBest Let_def version_text_def scribbled_hook
      writeFileSync_def on_process_end_def on_close_def pre_conversion_def readFileSync_def
      post_conversion_def resolve_output_def child_env_def
      post_conversion_context_def script_context_def truthy_opt_def truthy_def)

lemma scribbled_main:
  "fst (main harness_platform harness_loader harness_config scribbled_world) = 0"
  by (simp add: main_def scribbled_setup scribbled_needsRegeneration scribbled_generateTypes Let_def)

text \<open>
  Claim C2 (plugin failure isolation), as the code has it. Let the manager, once
  initialised, hold the plugins \<open>pre\<close>, then the plugin \<open>p\<close> under the name \<open>n\<close>,
  then \<open>post\<close>; let \<open>good\<close> be the working context the plugins of \<open>pre\<close> make of
  the caller's, and let the handler of \<open>p\<close>, handed \<open>good\<close>, throw \<open>msg\<close> and
  leave that object in the state \<open>left\<close>. Then \<^verbatim>\<open>executeHook\<close> returns what the
  plugins of \<open>post\<close> make of \<open>left\<close>, the working context as the failing handler left
  it: nothing is restored. When the handler left the object as it found it, that is the
  result of the same hook without \<open>p\<close>. The manager's logger gets the line
  \<^verbatim>\<open>Error executing plugin n for hook h: msg\<close>; every plugin of the list is called
  once, in the order of the list, so no later handler is skipped; and
  \<^verbatim>\<open>executePluginHook\<close>, through which the script runs every hook, returns that same
  context: the error reaches no caller. A throw by itself changes nothing in a run:
  \<^verbatim>\<open>main\<close> over the plugins in which every throw is replaced by returning nothing
  ends with the same exit code and the same files, after the same writes and the same
  child processes.
\<close>

theorem executeHook_failure_isolation:
  assumes "executeHook req pm hook ctx = (c, pm', ev)"
      and "plugins pm' = pre @ (n, p) # post"
      and "good = fst (run_plugins hook pre (ctx\<lparr>logger := Some ManagerLogger\<rparr>))"
      and "onHook p hook good = (left, Throws msg)"
  shows "c = fst (run_plugins hook post left)
       \<and> (left = good \<longrightarrow>
            c = fst (executeHook req (pm'\<lparr>plugins := pre @ post, initialized := True\<rparr>) hook ctx))
       \<and> LogError (''Error executing plugin '' @ n @ '' for hook '' @ hook_text hook @ '': '' @ msg) \<in> set ev
       \<and> invoked_names ev = map fst pre @ n # map fst post
       \<and> fst (executePluginHook req (Some pm) hook ctx) = c
       \<and> fst (main L (quiet_loader req) cfg w) = fst (main L req cfg w)
       \<and> fst (snd (main L (quiet_loader req) cfg w)) = fst (snd (main L req cfg w))
       \<and> writes (snd (snd (main L (quiet_loader req) cfg w))) = writes (snd (snd (main L req cfg w)))
       \<and> spawns (snd (snd (main L (quiet_loader req) cfg w))) = spawns (snd (snd (main L req cfg w)))"
proof -
  let ?c0 = "ctx\<lparr>logger := Some ManagerLogger\<rparr>"
  have c: "c = fst (run_plugins hook (pre @ (n, p) # post) ?c0)"
    using executeHook_parts(1)[OF assms(1)] assms(2) by simp
  have 1: "c = fst (run_plugins hook post left)"
    unfolding c run_plugins_append_fst using assms(3,4) by simp
  have 2: "left = good \<longrightarrow>
             c = fst (executeHook req (pm'\<lparr>plugins := pre @ post, initialized := True\<rparr>) hook ctx)"
    unfolding 1 by (simp add: executeHook_def Let_def run_plugins_append_fst assms(3))
  have "LogError (''Error executing plugin '' @ n @ '' for hook '' @ hook_text hook @ '': '' @ msg)
          \<in> set (snd (run_plugins hook (pre @ (n, p) # post) ?c0))"
    unfolding run_plugins_append_snd using assms(3,4) by simp
  then have 3: "LogError (''Error executing plugin '' @ n @ '' for hook '' @ hook_text hook @ '': '' @ msg) \<in> set ev"
    using executeHook_parts(4)[OF assms(1)] assms(2) by auto
  have 4: "invoked_names ev = map fst pre @ n # map fst post"
    using executeHook_parts(2)[OF assms(1)] assms(2) by simp
  have 5: "fst (executePluginHook req (Some pm) hook ctx) = c"
    using assms(1) by (simp add: executePluginHook_def Let_def)
  from 1 2 3 4 5 quiet_main[of L req cfg w] show ?thesis by simp
qed

text \<open>
  Witness: a plugin that writes \<^verbatim>\<open>// partial\<close> to \<^verbatim>\<open>tsOutput\<close> and throws, before
  a recorder. The recorder runs and its entry is in the result, with the text the
  failing handler wrote; the error is logged under the name of the failing plugin; and
  the run of the checkout with these two plugins exits with 0, as it does with the
  throw replaced by returning nothing.
\<close>

theorem executeHook_failure_isolation_witness:
  "pluginData (fst (executeHook harness_loader
      (new_PluginManager [plugin_def ''bad'' ''./scribbles.js'' (Some 1), plugin_def ''good'' ''./records.js'' (Some 2)])
      POST_CONVERSION bare_context))
     = [(''./records.js'', ''POST_CONVERSION'')]
   \<and> tsOutput (fst (executeHook harness_loader
      (new_PluginManager [plugin_def ''bad'' ''./scribbles.js'' (Some 1), plugin_def ''good'' ''./records.js'' (Some 2)])
      POST_CONVERSION bare_context))
     = Some ''// partial''
   \<and> LogError ''Error executing plugin bad for hook POST_CONVERSION: boom''
       \<in> set (snd (snd (executeHook harness_loader
      (new_PluginManager [plugin_def ''bad'' ''./scribbles.js'' (Some 1), plugin_def ''good'' ''./records.js'' (Some 2)])
      POST_CONVERSION bare_context)))
   \<and> fst (main harness_platform harness_loader harness_config scribbled_world) = 0
   \<and> fst (main harness_platform (quiet_loader harness_loader) harness_config scribbled_world) = 0"
  using executeHook_failure_isolation
    [of harness_loader
        "new_PluginManager [plugin_def ''bad'' ''./scribbles.js'' (Some 1), plugin_def ''good'' ''./records.js'' (Some 2)]"
        POST_CONVERSION bare_context
        "fst (executeHook harness_loader
          (new_PluginManager [plugin_def ''bad'' ''./scribbles.js'' (Some 1), plugin_def ''good'' ''./records.js'' (Some 2)])
          POST_CONVERSION bare_context)"
        "fst (snd (executeHook harness_loader
          (new_PluginManager [plugin_def ''bad'' ''./scribbles.js'' (Some 1), plugin_def ''good'' ''./records.js'' (Some 2)])
          POST_CONVERSION bare_context))"
        "snd (snd (executeHook harness_loader
          (new_PluginManager [plugin_def ''bad'' ''./scribbles.js'' (Some 1), plugin_def ''good'' ''./records.js'' (Some 2)])
          POST_CONVERSION bare_context))"
        "[]" "''bad''" scribbling_plugin "[(''good'', recording_plugin ''./records.js'')]"
        "bare_context\<lparr>logger := Some ManagerLogger\<rparr>"
        "bare_context\<lparr>logger := Some ManagerLogger, tsOutput := Some ''// partial''\<rparr>" "''boom''"
        harness_platform harness_config scribbled_world]
  by (simp add: scribbled_main executeHook_def initialize_def new_PluginManager_def plugin_def_def harness_loader_def
      recording_plugin_def scribbling_plugin_def bare_context_def loadPlugin_def priority_or_default_def Let_def)

text \<open>
  Counterexample to C2 as stated (\<^emph>\<open>using the last good context\<close>): a recorder, the
  plugin that writes \<^verbatim>\<open>// partial\<close> to \<^verbatim>\<open>tsOutput\<close> and throws, and a second
  recorder. The first two handlers are handed a context without \<^verbatim>\<open>tsOutput\<close>; the
  third is handed the text the failing handler wrote, and the hook returns it. In the
  run of the checkout with the failing plugin, \<^verbatim>\<open>generateTypes\<close> resolves with that
  text in place of the text the generator wrote.
\<close>

theorem failing_handler_writes_persist_counterexample:
  "invoked_names (snd (snd (executeHook harness_loader
      (new_PluginManager [plugin_def ''first'' ''./first.js'' (Some 1), plugin_def ''bad'' ''./scribbles.js'' (Some 2),
                          plugin_def ''last'' ''./last.js'' (Some 3)])
      POST_CONVERSION bare_context))) = [''first'', ''bad'', ''last'']
   \<and> map tsOutput (invoked_contexts (snd (snd (executeHook harness_loader
      (new_PluginManager [plugin_def ''first'' ''./first.js'' (Some 1), plugin_def ''bad'' ''./scribbles.js'' (Some 2),
                          plugin_def ''last'' ''./last.js'' (Some 3)])
      POST_CONVERSION bare_context)))) = [None, None, Some ''// partial'']
   \<and> tsOutput (fst (executeHook harness_loader
      (new_PluginManager [plugin_def ''first'' ''./first.js'' (Some 1), plugin_def ''bad'' ''./scribbles.js'' (Some 2),
                          plugin_def ''last'' ''./last.js'' (Some 3)])
      POST_CONVERSION bare_context)) = Some ''// partial''
   \<and> fst (generateTypes harness_platform harness_loader harness_config
            (fst (setupPlugins harness_loader harness_config scribbled_world)) scribbled_world)
       = Inr (''// partial'', Some ''3.8.10'')"
  by (simp add: scribbled_setup scribbled_generateTypes executeHook_def initialize_def new_PluginManager_def plugin_def_def harness_loader_def
      recording_plugin_def scribbling_plugin_def bare_context_def loadPlugin_def priority_or_default_def Let_def)

subsection \<open>The writes of a regenerating run\<close>




lemma unwritable_output_world_fields [simp]:
  "fs unwritable_output_world = stale_fs"
  "process_env unwritable_output_world = Map.empty"
  "version_probe unwritable_output_world = harness_probe"
  "interpreter_search unwritable_output_world = []"
  "search_processes unwritable_output_world = []"
  "run_generator unwritable_output_world executable script env_given = Exited (Some 0) ''export interface EntitySet {}'' []"
  "clock unwritable_output_world = 2000"
  "write_error unwritable_output_world = [''/repo/src/types/featuretools.ts'' \<mapsto> ''EACCES: permission denied, open'']"
  "configured_plugins unwritable_output_world = []"
  by (simp_all add: unwritable_output_world_def harness_world_def)

lemma stale_fs_lookups [simp]:
  "stale_fs ''/repo/.type-cache.json'' = None"
  "stale_fs ''/repo/src/types/featuretools.ts'' = Some (RegularFile (Inr ''// stale'') 500)"
  "stale_fs ''/repo/src/types'' = Some (Directory (Readable []) 1000)"
  "stale_fs ''/repo/src/python/generate_types.py'' = Some (RegularFile (Inr ''print(1)'') 1000)"
  "stale_fs ''/repo/src/python/version_compat.py'' = None"
  "stale_fs ''/repo/stubs'' = Some (Directory (Readable [DirEntry ''featuretools'' (Readable [FileEntry ''entityset.pyi'' (Some 900)])]) 900)"
  "stale_fs ''/repo/node_modules/@types'' = None"
  "stale_fs ''/home/dev/.local/lib/python3/stubs'' = None"
  "stale_fs ''/tmp/featuretools-types-1.ts'' = None"
  "stale_fs ''/tmp/featuretools-types-2.ts'' = None"
  by (simp_all add: stale_fs_def harness_fs_def)









lemma left_stale_fs_lookups [simp]:
  "left_stale_fs ''/repo/.type-cache.json'' = Some (RegularFile (Inr (harness_stringify (harness_record (Some ''3.8.10'')))) 2000)"
  "left_stale_fs ''/repo/src/types/featuretools.ts'' = Some (RegularFile (Inr ''// stale'') 500)"
  "left_stale_fs ''/repo/src/python/generate_types.py'' = Some (RegularFile (Inr ''print(1)'') 1000)"
  "left_stale_fs ''/repo/src/python/version_compat.py'' = None"
  "left_stale_fs ''/repo/stubs'' = Some (Directory (Readable [DirEntry ''featuretools'' (Readable [FileEntry ''entityset.pyi'' (Some 900)])]) 900)"
  "left_stale_fs ''/repo/node_modules/@types'' = None"
  "left_stale_fs ''/home/dev/.local/lib/python3/stubs'' = None"
  "left_stale_fs ''/tmp/featuretools-types-2.ts'' = None"
  by (simp_all add: left_stale_fs_def)

lemma harness_config_again_fields [simp]:
  "pythonScript harness_config_again = ''/repo/src/python/generate_types.py''"
  "outputFile harness_config_again = ''/repo/src/types/featuretools.ts''"
  "cacheFile harness_config_again = ''/repo/.type-cache.json''"
  "tempOutputFile harness_config_again = ''/tmp/featuretools-types-2.ts''"
  "debugMode harness_config_again = False"
  "pythonExecutable harness_config_again = ''python3''"
  "forceRegeneration harness_config_again = False"
  "useTS49Features harness_config_again = True"
  "pythonMinVersion harness_config_again = ''3.6''"
  "pythonMaxVersion harness_config_again = ''3.11''"
  "pythonPreferredVersion harness_config_again = ''3.8''"
  "pluginsEnabled harness_config_again = True"
  by (simp_all add: harness_config_again_def)


lemma again_paths [simp]:
  "versionCompatPath harness_platform harness_config_again = ''/repo/src/python/version_compat.py''"
  "logPerf harness_config_again m = []"
  by (simp_all add: versionCompatPath_def harness_resolve_def harness_dirname_def logPerf_def)







end
